theory Spec2Isabelle
  imports Complex_Main "HOL-Library.Signed_Division" "HOL-Library.Word"
    "HOL-Library.Product_Lexorder" "HOL-Library.Sublist"
begin

unbundle bit_operations_syntax

text \<open>
  A model of the OpenGL backend of the compositor (\<open>src/opengl.c\<close>): the FBConfig
  comparator and the selection of an FBConfig per depth, the synthesis of the blur
  shaders, the binding of pixmaps to textures, the paint region derived from the buffer
  age, and the two blur operations. Each C function is a HOL function of the same name
  on the part of the session it uses; what the X server and the GL driver answer is an
  argument of the function. The properties proved follow the definitions.
\<close>

section \<open>Outcomes of a C call\<close>

text \<open>
  A call either returns a value, aborts the process (a failed \<open>assert\<close> or
  \<open>allocchk\<close>), or runs into behaviour that C leaves undefined (a read past the end
  of an array).
\<close>

datatype 'a c_result = Returns 'a | Aborts | Undefined

section \<open>C integer operations used by the renderer\<close>

text \<open>
  The C expression \<open>1 << n\<close> on a 32-bit \<open>int\<close>: defined when \<open>0 \<le> n\<close> and the
  result \<open>2 ^ n\<close> fits in \<open>int\<close>, that is \<open>n < 31\<close>; anything else is undefined
  behaviour, modelled as \<open>None\<close>.
\<close>

definition c_shl1 :: "int \<Rightarrow> int option" where
  "c_shl1 n = (if 0 \<le> n \<and> n < 31 then Some (2 ^ nat n) else None)"

text \<open>
  The value of an arithmetic result as a 32-bit \<open>int\<close>: two's complement wrap-around.
\<close>

definition c_int :: "int \<Rightarrow> int" where
  "c_int x = signed_take_bit 31 x"

text \<open>Sequencing of calls: the first abort or undefined step ends the computation.\<close>

definition c_bind :: "'a c_result \<Rightarrow> ('a \<Rightarrow> 'b c_result) \<Rightarrow> 'b c_result" where
  "c_bind r f = (case r of Returns x \<Rightarrow> f x | Aborts \<Rightarrow> Aborts | Undefined \<Rightarrow> Undefined)"

section \<open>Dual Kawase blur: reduction of the iteration count\<close>

text \<open>
  \<^verbatim>\<open>
  while ((mwidth / (1 << (iterations-1))) < 1 || (mheight / (1 << (iterations-1))) < 1)
    --iterations;
  \<close>
  The loop of \<open>glx_kawase_blur_dst\<close>. C division truncates towards zero (\<open>sdiv\<close>).
  The result is \<open>None\<close> when the loop evaluates an undefined shift.
\<close>

function reduce_iterations :: "int \<Rightarrow> int \<Rightarrow> int \<Rightarrow> int option" where
  "reduce_iterations mwidth mheight iterations =
     (case c_shl1 (iterations - 1) of
        None \<Rightarrow> None
      | Some p \<Rightarrow>
          if mwidth sdiv p < 1 \<or> mheight sdiv p < 1
          then reduce_iterations mwidth mheight (iterations - 1)
          else Some iterations)"
  by pat_completeness auto
termination
  by (relation "measure (\<lambda>(w, h, i). nat i)")
     (auto simp: c_shl1_def split: if_splits)

declare reduce_iterations.simps [simp del]


section \<open>Pixmap-texture bridge: \<open>glx_bind_pixmap\<close> and \<open>glx_release_pixmap\<close>\<close>

text \<open>Handles (\<open>GLuint\<close>, \<open>GLXPixmap\<close>, \<open>xcb_pixmap_t\<close>, \<open>GLXFBConfig\<close>) are naturals; 0 is the null handle.\<close>

datatype backend = BKEND_XRENDER | BKEND_GLX | BKEND_XR_GLX_HYBRID

text \<open>
  Modelled from the spec: the constant \<open>OPENGL_MAX_DEPTH\<close> is declared in a header that is
  not part of the sources; the spec keeps one surface configuration per depth 0..32.
\<close>

definition OPENGL_MAX_DEPTH :: nat where
  "OPENGL_MAX_DEPTH = 32"

text \<open>Constants of the GL and GLX headers.\<close>

definition GLX_TEXTURE_2D_BIT_EXT :: int where "GLX_TEXTURE_2D_BIT_EXT = 2"
definition GLX_TEXTURE_RECTANGLE_BIT_EXT :: int where "GLX_TEXTURE_RECTANGLE_BIT_EXT = 4"
definition GLX_TEXTURE_FORMAT_EXT :: int where "GLX_TEXTURE_FORMAT_EXT = 8405"
definition GLX_TEXTURE_TARGET_EXT :: int where "GLX_TEXTURE_TARGET_EXT = 8406"
definition GLX_TEXTURE_FORMAT_RGB_EXT :: int where "GLX_TEXTURE_FORMAT_RGB_EXT = 8409"
definition GLX_TEXTURE_FORMAT_RGBA_EXT :: int where "GLX_TEXTURE_FORMAT_RGBA_EXT = 8410"
definition GLX_TEXTURE_2D_EXT :: int where "GLX_TEXTURE_2D_EXT = 8412"
definition GLX_TEXTURE_RECTANGLE_EXT :: int where "GLX_TEXTURE_RECTANGLE_EXT = 8413"
definition GL_TEXTURE_2D :: nat where "GL_TEXTURE_2D = 3553"
definition GL_TEXTURE_RECTANGLE :: nat where "GL_TEXTURE_RECTANGLE = 34037"

record glx_fbconfig_t =
  cfg :: nat
  texture_fmt :: int
  texture_tgts :: int
  fbc_y_inverted :: bool

record glx_texture_t =
  texture :: nat
  glpixmap :: nat
  pixmap :: nat
  target :: nat
  width :: nat
  height :: nat
  depth :: nat
  y_inverted :: bool

text \<open>
  The part of \<open>session_t\<close> that the bridge reads: \<open>ps->o.backend\<close>,
  \<open>ps->psglx->fbconfigs\<close> (an array of \<open>OPENGL_MAX_DEPTH + 1\<close> pointers, \<open>None\<close> for
  \<open>NULL\<close>) and \<open>ps->psglx->has_texture_non_power_of_two\<close>.
\<close>

record bind_session =
  backend :: backend
  fbconfigs :: "glx_fbconfig_t option list"
  has_texture_non_power_of_two :: bool

text \<open>
  What the X server, the GL driver and the allocator answer during one call:
  \<open>XGetGeometry\<close> gives width, height and depth of a pixmap or fails (\<open>None\<close>);
  \<open>glXCreatePixmap\<close> gives a GLX pixmap handle for an FBConfig, a pixmap and an
  attribute list; \<open>glGenTextures\<close> gives the texture name it writes, 0 when it writes
  none; \<open>malloc_ok\<close> tells whether \<open>cmalloc\<close> succeeds.
\<close>

record bind_env =
  XGetGeometry :: "nat \<Rightarrow> (nat \<times> nat \<times> nat) option"
  glXCreatePixmap :: "nat \<Rightarrow> nat \<Rightarrow> int list \<Rightarrow> nat"
  glGenTextures :: nat
  malloc_ok :: bool

text \<open>
  The calls into GL and GLX that change state outside the binding, in the order made
  (\<open>GlTexParameters\<close> stands for the four \<open>glTexParameteri\<close> calls on a new texture).
\<close>

datatype gl_call =
    GlEnable nat
  | GlDisable nat
  | GlBindTexture nat nat
  | GlGenTextures nat
  | GlTexParameters nat
  | GlXCreatePixmap nat nat "int list"
  | GlXDestroyPixmap nat
  | GlXReleaseTexImage nat
  | GlXBindTexImage nat

definition GLX_TEX_DEF :: glx_texture_t where
  "GLX_TEX_DEF = \<lparr>texture = 0, glpixmap = 0, pixmap = 0, target = 0,
     width = 0, height = 0, depth = 0, y_inverted = False\<rparr>"

text \<open>
  \<open>glx_release_pixmap\<close>: releases the texture image when both handles are present,
  destroys the GLX pixmap and zeroes its handle; the texture is kept.
  (\<open>glx_check_err\<close> only reads and logs the GL error flag.)
\<close>

definition glx_release_pixmap ::
  "glx_texture_t \<Rightarrow> gl_call list \<Rightarrow> glx_texture_t \<times> gl_call list" where
  "glx_release_pixmap ptex calls =
     (let calls1 =
            (if glpixmap ptex \<noteq> 0 \<and> texture ptex \<noteq> 0
             then calls @ [GlBindTexture (target ptex) (texture ptex),
                           GlXReleaseTexImage (glpixmap ptex),
                           GlBindTexture (target ptex) 0]
             else calls)
      in if glpixmap ptex \<noteq> 0
         then (ptex\<lparr>glpixmap := 0\<rparr>, calls1 @ [GlXDestroyPixmap (glpixmap ptex)])
         else (ptex, calls1))"

text \<open>The texture target chosen from the FBConfig's target bits ("copied from compiz").\<close>

definition bind_tex_tgt :: "glx_fbconfig_t \<Rightarrow> bool \<Rightarrow> int" where
  "bind_tex_tgt pcfg npot =
     (if (GLX_TEXTURE_2D_BIT_EXT AND texture_tgts pcfg) \<noteq> 0 \<and> npot
      then GLX_TEXTURE_2D_EXT
      else if (GLX_TEXTURE_RECTANGLE_BIT_EXT AND texture_tgts pcfg) \<noteq> 0
      then GLX_TEXTURE_RECTANGLE_EXT
      else if \<not> ((GLX_TEXTURE_2D_BIT_EXT AND texture_tgts pcfg) \<noteq> 0)
      then GLX_TEXTURE_RECTANGLE_EXT
      else GLX_TEXTURE_2D_EXT)"

type_synonym bind_out = "bool c_result \<times> glx_texture_t option \<times> gl_call list"

text \<open>
  The block "Create GLX pixmap" of \<open>glx_bind_pixmap\<close>, entered when the binding has no
  GLX pixmap. \<open>Inl\<close> is an early \<open>return\<close> of the whole function, \<open>Inr\<close> continues.
  The depth is checked against \<open>OPENGL_MAX_DEPTH\<close> only inside the branch that queries
  the geometry; \<open>ps->psglx->fbconfigs[depth]\<close> is then read whatever the depth, and a
  read past the array is undefined.
\<close>

definition bind_create_glpixmap ::
  "bind_session \<Rightarrow> bind_env \<Rightarrow> glx_texture_t \<Rightarrow> nat \<Rightarrow> nat \<Rightarrow> nat \<Rightarrow> nat \<Rightarrow> gl_call list
     \<Rightarrow> bind_out + glx_texture_t \<times> gl_call list" where
  "bind_create_glpixmap ps env ptex pm w h d calls =
     (case (if w \<noteq> 0 \<and> h \<noteq> 0 \<and> d \<noteq> 0 then Inr (w, h, d)
            else (case XGetGeometry env pm of
                    None \<Rightarrow> Inl (Returns False)
                  | Some (qw, qh, qd) \<Rightarrow>
                      if qd > OPENGL_MAX_DEPTH then Inl (Returns False)
                      else Inr (qw, qh, qd))) of
        Inl r \<Rightarrow> Inl (r, Some ptex, calls)
      | Inr (w1, h1, d1) \<Rightarrow>
          if \<not> d1 < length (fbconfigs ps) then Inl (Undefined, Some ptex, calls)
          else (case fbconfigs ps ! d1 of
                  None \<Rightarrow> Inl (Returns False, Some ptex, calls)
                | Some pcfg \<Rightarrow>
                    let tex_tgt = bind_tex_tgt pcfg (has_texture_non_power_of_two ps);
                        attrs = [GLX_TEXTURE_FORMAT_EXT, texture_fmt pcfg,
                                 GLX_TEXTURE_TARGET_EXT, tex_tgt, 0]
                    in Inr (ptex\<lparr>glpixmap := glXCreatePixmap env (cfg pcfg) pm attrs,
                                  pixmap := pm,
                                  target := (if GLX_TEXTURE_2D_EXT = tex_tgt
                                             then GL_TEXTURE_2D else GL_TEXTURE_RECTANGLE),
                                  width := w1, height := h1, depth := d1,
                                  y_inverted := fbc_y_inverted pcfg\<rparr>,
                            calls @ [GlXCreatePixmap (cfg pcfg) pm attrs])))"

text \<open>
  The rest of \<open>glx_bind_pixmap\<close>, from \<open>glEnable(ptex->target)\<close> on: creates the texture
  when there is none, fails when there still is none, and otherwise (re)binds the GLX
  pixmap to it. \<open>need_release\<close> is the flag of the source as it stands after the
  "Create GLX pixmap" block.
\<close>

definition bind_create_texture ::
  "bind_env \<Rightarrow> glx_texture_t \<Rightarrow> bool \<Rightarrow> gl_call list \<Rightarrow> bind_out" where
  "bind_create_texture env ptex need_release calls =
     (let calls1 = calls @ [GlEnable (target ptex)];
          (ptex1, need_release1, calls2) =
            (if texture ptex = 0
             then (ptex\<lparr>texture := glGenTextures env\<rparr>, False,
                   calls1 @ [GlGenTextures (glGenTextures env),
                             GlBindTexture (target ptex) (glGenTextures env),
                             GlTexParameters (target ptex),
                             GlBindTexture (target ptex) 0])
             else (ptex, need_release, calls1))
      in if texture ptex1 = 0 then (Returns False, Some ptex1, calls2)
         else (Returns True, Some ptex1,
               calls2 @ [GlBindTexture (target ptex1) (texture ptex1)]
                      @ (if need_release1 then [GlXReleaseTexImage (glpixmap ptex1)] else [])
                      @ [GlXBindTexImage (glpixmap ptex1),
                         GlBindTexture (target ptex1) 0,
                         GlDisable (target ptex1)]))"

text \<open>
  \<open>glx_bind_pixmap(ps, pptex, pixmap, width, height, depth)\<close>. The binding \<open>*pptex\<close> is
  \<open>None\<close> for \<open>NULL\<close>; the function returns its result, the binding and the GL calls made.
\<close>

definition glx_bind_pixmap ::
  "bind_session \<Rightarrow> bind_env \<Rightarrow> glx_texture_t option \<Rightarrow> nat \<Rightarrow> nat \<Rightarrow> nat \<Rightarrow> nat \<Rightarrow> gl_call list
     \<Rightarrow> bind_out" where
  "glx_bind_pixmap ps env pptex pm w h d calls =
     (if backend ps \<noteq> BKEND_GLX \<and> backend ps \<noteq> BKEND_XR_GLX_HYBRID
      then (Returns True, pptex, calls)
      else if pm = 0 then (Returns False, pptex, calls)
      else if pptex = None \<and> \<not> malloc_ok env then (Aborts, pptex, calls)
      else
        let ptex0 = (case pptex of None \<Rightarrow> GLX_TEX_DEF | Some t \<Rightarrow> t);
            (ptex1, calls1) =
              (if texture ptex0 \<noteq> 0 \<and> pixmap ptex0 \<noteq> pm
               then glx_release_pixmap ptex0 calls else (ptex0, calls))
        in (case (if glpixmap ptex1 = 0
                  then bind_create_glpixmap ps env ptex1 pm w h d calls1
                  else Inr (ptex1, calls1)) of
              Inl out \<Rightarrow> out
            | Inr (ptex2, calls2) \<Rightarrow>
                if glpixmap ptex2 = 0 then (Returns False, Some ptex2, calls2)
                else bind_create_texture env ptex2 (glpixmap ptex1 \<noteq> 0) calls2))"

text \<open>The invariant of the spec: both handles absent or both present.\<close>

definition binding_consistent :: "glx_texture_t option \<Rightarrow> bool" where
  "binding_consistent pptex =
     (case pptex of None \<Rightarrow> True | Some t \<Rightarrow> (glpixmap t = 0) = (texture t = 0))"

definition binding_empty :: "glx_texture_t option \<Rightarrow> bool" where
  "binding_empty pptex =
     (case pptex of None \<Rightarrow> True | Some t \<Rightarrow> glpixmap t = 0 \<and> texture t = 0)"

definition binding_full :: "glx_texture_t option \<Rightarrow> bool" where
  "binding_full pptex =
     (case pptex of None \<Rightarrow> False | Some t \<Rightarrow> glpixmap t \<noteq> 0 \<and> texture t \<noteq> 0)"

text \<open>
  The two GLX calls that \<open>glx_release_pixmap\<close> makes, \<open>glXReleaseTexImageEXT\<close> and
  \<open>glXDestroyPixmap\<close>.
\<close>

fun is_release_call :: "gl_call \<Rightarrow> bool" where
  "is_release_call (GlXDestroyPixmap p) = True"
| "is_release_call (GlXReleaseTexImage p) = True"
| "is_release_call (GlEnable t) = False"
| "is_release_call (GlDisable t) = False"
| "is_release_call (GlBindTexture t n) = False"
| "is_release_call (GlGenTextures n) = False"
| "is_release_call (GlTexParameters t) = False"
| "is_release_call (GlXCreatePixmap c p a) = False"
| "is_release_call (GlXBindTexImage p) = False"

text \<open>
  The binding and the calls made when \<open>glx_bind_pixmap\<close> has passed its first block,
  "Release pixmap if parameters are inconsistent": the binding passed in (a fresh one
  for \<open>NULL\<close>), with its GLX pixmap released when it holds a texture of another pixmap.
\<close>

definition bind_after_mismatch ::
  "glx_texture_t option \<Rightarrow> nat \<Rightarrow> gl_call list \<Rightarrow> glx_texture_t \<times> gl_call list" where
  "bind_after_mismatch pptex pm calls =
     (let ptex0 = (case pptex of None \<Rightarrow> GLX_TEX_DEF | Some t \<Rightarrow> t)
      in if texture ptex0 \<noteq> 0 \<and> pixmap ptex0 \<noteq> pm
         then glx_release_pixmap ptex0 calls else (ptex0, calls))"


section \<open>Frame-age damage tracker: \<open>glx_paint_pre\<close>\<close>

text \<open>
  A region (\<open>region_t\<close>, a pixman region) is the set of pixels it covers;
  \<open>pixman_region32_union\<close> is set union and \<open>copy_region\<close> is assignment.
\<close>

type_synonym region = "(int \<times> int) set"

text \<open>
  The part of \<open>session_t\<close> that \<open>glx_paint_pre\<close> uses: \<open>ps->o.glx_swap_method\<close>,
  the damage history \<open>ps->all_damage_last\<close> (an array of \<open>CGLX_MAX_BUFFER_AGE\<close>
  regions, most recent first) and \<open>ps->screen_reg\<close>.
\<close>

record paint_session =
  glx_swap_method :: int
  all_damage_last :: "region list"
  screen_reg :: region

text \<open>
  \<^verbatim>\<open>
  for (int i = 0; i < buffer_age - 1; ++i)
    pixman_region32_union(preg, preg, &ps->all_damage_last[i]);
  \<close>
  with the bound \<open>n = buffer_age - 1\<close>; a read outside the history array is undefined
  (\<open>None\<close>).
\<close>

function union_damage :: "region list \<Rightarrow> int \<Rightarrow> int \<Rightarrow> region \<Rightarrow> region option" where
  "union_damage hist n i preg =
     (if i < n
      then (if 0 \<le> i \<and> nat i < length hist
            then union_damage hist n (i + 1) (preg \<union> hist ! nat i)
            else None)
      else Some preg)"
  by pat_completeness auto
termination
  by (relation "measure (\<lambda>(hist, n, i, preg). nat (n - i))") auto

declare union_damage.simps [simp del]

text \<open>
  \<open>glx_paint_pre(ps, preg)\<close>. The constants \<open>CGLX_MAX_BUFFER_AGE\<close> and
  \<open>SWAPM_BUFFER_AGE\<close> are declared in a header outside the sources and are parameters
  here. \<open>val\<close> is what \<open>glXQueryDrawable\<close> writes for \<open>GLX_BACK_BUFFER_AGE_EXT\<close> (an
  \<open>unsigned\<close>, 0 when it writes nothing), converted to \<open>int\<close> by the assignment
  \<open>buffer_age = val\<close>. The result is the paint region and the session with the history
  updated; \<open>assert(buffer_age >= 0)\<close> aborts. (The call of \<open>glx_set_clip\<close> and the reset
  of \<open>ps->psglx->z\<close> do not touch the region or the history.)
\<close>

definition glx_paint_pre ::
  "int \<Rightarrow> int \<Rightarrow> paint_session \<Rightarrow> 32 word \<Rightarrow> region \<Rightarrow> (region \<times> paint_session) c_result" where
  "glx_paint_pre CGLX_MAX_BUFFER_AGE SWAPM_BUFFER_AGE ps val preg =
     (let trace_damage = (glx_swap_method ps < 0 \<or> glx_swap_method ps > 1);
          newdamage = (if trace_damage then preg else {});
          queried = (if glx_swap_method ps = SWAPM_BUFFER_AGE then sint val else 0);
          buffer_age = (if queried > CGLX_MAX_BUFFER_AGE + 1 then 0 else queried)
      in if \<not> buffer_age \<ge> 0 then Aborts
         else (case (if buffer_age \<noteq> 0
                     then union_damage (all_damage_last ps) (buffer_age - 1) 0 preg
                     else Some (screen_reg ps)) of
                 None \<Rightarrow> Undefined
               | Some painted \<Rightarrow>
                   Returns (painted,
                     if trace_damage
                     then ps\<lparr>all_damage_last :=
                            newdamage # take (nat (CGLX_MAX_BUFFER_AGE - 1)) (all_damage_last ps)\<rparr>
                     else ps)))"


section \<open>Capability negotiator: FBConfig comparison and selection\<close>

datatype glx_attr =
    GLX_RED_SIZE
  | GLX_BIND_TO_TEXTURE_RGBA_EXT
  | GLX_BIND_TO_TEXTURE_RGB_EXT
  | GLX_DOUBLEBUFFER
  | GLX_STENCIL_SIZE
  | GLX_DEPTH_SIZE
  | GLX_BIND_TO_MIPMAP_TEXTURE_EXT
  | GLX_SAMPLES
  | GLX_BUFFER_SIZE
  | GLX_ALPHA_SIZE
  | GLX_BIND_TO_TEXTURE_TARGETS_EXT
  | GLX_Y_INVERTED_EXT

text \<open>
  What the display answers: the FBConfigs of the screen (\<open>glXGetFBConfigs\<close>), the value
  of an attribute of an FBConfig (\<open>glXGetFBConfigAttrib\<close>; \<open>None\<close> when the call does not
  return \<open>Success\<close> and leaves its output untouched), and the depth of the X visual of an
  FBConfig (\<open>glXGetVisualFromFBConfig\<close>; \<open>None\<close> for \<open>NULL\<close>).
\<close>

record glx_display =
  glXGetFBConfigs :: "nat list"
  glXGetFBConfigAttrib :: "nat \<Rightarrow> glx_attr \<Rightarrow> int option"
  glXGetVisualFromFBConfig :: "nat \<Rightarrow> int option"

text \<open>
  \<open>glx_cmp_fbconfig_cmpattr\<close>: both outputs start at 0 and keep it when the query fails
  ("TODO: Error checking"); the difference is computed in \<open>int\<close>.
\<close>

definition glx_cmp_fbconfig_cmpattr ::
  "glx_display \<Rightarrow> glx_fbconfig_t \<Rightarrow> glx_fbconfig_t \<Rightarrow> glx_attr \<Rightarrow> int" where
  "glx_cmp_fbconfig_cmpattr dpy pfbc_a pfbc_b attr =
     (let attr_a = (case glXGetFBConfigAttrib dpy (cfg pfbc_a) attr of None \<Rightarrow> 0 | Some v \<Rightarrow> v);
          attr_b = (case glXGetFBConfigAttrib dpy (cfg pfbc_b) attr of None \<Rightarrow> 0 | Some v \<Rightarrow> v)
      in c_int (attr_a - attr_b))"

text \<open>
  \<open>glx_cmp_fbconfig\<close>. \<open>tmpattr\<close> is declared without a value: when the red-size query
  of \<open>a\<close> fails it is read uninitialised (\<open>Undefined\<close>); when the query of \<open>b\<close> fails it
  still holds the 8 read for \<open>a\<close>. \<open>P_CMPATTR_LT\<close> returns \<open>-result\<close>, \<open>P_CMPATTR_GT\<close>
  returns \<open>result\<close>, each when the difference is not 0.
\<close>

definition glx_cmp_fbconfig ::
  "glx_display \<Rightarrow> glx_fbconfig_t option \<Rightarrow> glx_fbconfig_t option \<Rightarrow> int c_result" where
  "glx_cmp_fbconfig dpy pfbc_a pfbc_b =
     (case pfbc_a of
        None \<Rightarrow> Returns (- 1)
      | Some a \<Rightarrow>
          (case pfbc_b of
             None \<Rightarrow> Returns 1
           | Some b \<Rightarrow>
               (case glXGetFBConfigAttrib dpy (cfg a) GLX_RED_SIZE of
                  None \<Rightarrow> Undefined
                | Some red_a \<Rightarrow>
                    if red_a \<noteq> 8 then Returns (- 1)
                    else if (case glXGetFBConfigAttrib dpy (cfg b) GLX_RED_SIZE of
                               None \<Rightarrow> red_a | Some red_b \<Rightarrow> red_b) \<noteq> 8
                    then Returns 1
                    else
                      let r1 = glx_cmp_fbconfig_cmpattr dpy a b GLX_BIND_TO_TEXTURE_RGBA_EXT in
                      if r1 \<noteq> 0 then Returns (c_int (- r1)) else
                      let r2 = glx_cmp_fbconfig_cmpattr dpy a b GLX_DOUBLEBUFFER in
                      if r2 \<noteq> 0 then Returns (c_int (- r2)) else
                      let r3 = glx_cmp_fbconfig_cmpattr dpy a b GLX_STENCIL_SIZE in
                      if r3 \<noteq> 0 then Returns (c_int (- r3)) else
                      let r4 = glx_cmp_fbconfig_cmpattr dpy a b GLX_DEPTH_SIZE in
                      if r4 \<noteq> 0 then Returns (c_int (- r4)) else
                      let r5 = glx_cmp_fbconfig_cmpattr dpy a b GLX_BIND_TO_MIPMAP_TEXTURE_EXT in
                      if r5 \<noteq> 0 then Returns r5 else
                      Returns 0)))"

text \<open>
  \<open>glx_update_fbconfig_bydepth\<close>: the table \<open>ps->psglx->fbconfigs\<close> is an array of
  \<open>OPENGL_MAX_DEPTH + 1\<close> slots; the new FBConfig replaces the slot's when the comparison
  of the current one with the new one is negative.
\<close>

definition glx_update_fbconfig_bydepth ::
  "glx_display \<Rightarrow> glx_fbconfig_t option list \<Rightarrow> int \<Rightarrow> glx_fbconfig_t
     \<Rightarrow> glx_fbconfig_t option list c_result" where
  "glx_update_fbconfig_bydepth dpy tbl dep pfbcfg =
     (if dep < 0 \<or> dep > int OPENGL_MAX_DEPTH then Returns tbl
      else if \<not> nat dep < length tbl then Undefined
      else c_bind (glx_cmp_fbconfig dpy (tbl ! nat dep) (Some pfbcfg))
             (\<lambda>r. if r < 0 then Returns (tbl[nat dep := Some pfbcfg]) else Returns tbl))"

text \<open>
  One round of the loop of \<open>glx_update_fbconfig\<close>, for the FBConfig \<open>pcur\<close>; every
  \<open>continue\<close> leaves the table as it is. (\<open>GLX_SAMPLES\<close> is defined by the GLX headers,
  so the test for multi-sampled visuals is compiled in. \<open>cmalloc\<close> of a table slot is
  taken to succeed.)
\<close>

definition glx_update_fbconfig_step ::
  "glx_display \<Rightarrow> glx_fbconfig_t option list \<Rightarrow> nat \<Rightarrow> glx_fbconfig_t option list c_result" where
  "glx_update_fbconfig_step dpy tbl pcur =
     (if (case glXGetFBConfigAttrib dpy pcur GLX_SAMPLES of None \<Rightarrow> False | Some v \<Rightarrow> v > 1)
      then Returns tbl
      else
        (case glXGetFBConfigAttrib dpy pcur GLX_BUFFER_SIZE of
           None \<Rightarrow> Returns tbl
         | Some bufsize \<Rightarrow>
        (case glXGetFBConfigAttrib dpy pcur GLX_ALPHA_SIZE of
           None \<Rightarrow> Returns tbl
         | Some depth_alpha \<Rightarrow>
        (case glXGetFBConfigAttrib dpy pcur GLX_BIND_TO_TEXTURE_TARGETS_EXT of
           None \<Rightarrow> Returns tbl
         | Some tgts \<Rightarrow>
        (case glXGetVisualFromFBConfig dpy pcur of
           None \<Rightarrow> Returns tbl
         | Some visualdepth \<Rightarrow>
             let rgba = (bufsize \<ge> 32 \<and> depth_alpha \<noteq> 0 \<and>
                    (case glXGetFBConfigAttrib dpy pcur GLX_BIND_TO_TEXTURE_RGBA_EXT of
                       None \<Rightarrow> False | Some v \<Rightarrow> v \<noteq> 0));
                 rgb = (case glXGetFBConfigAttrib dpy pcur GLX_BIND_TO_TEXTURE_RGB_EXT of
                       None \<Rightarrow> False | Some v \<Rightarrow> v \<noteq> 0);
                 fbinfo = \<lparr>cfg = pcur, texture_fmt = 0, texture_tgts = tgts,
                    fbc_y_inverted =
                      (case glXGetFBConfigAttrib dpy pcur GLX_Y_INVERTED_EXT of
                         None \<Rightarrow> False | Some v \<Rightarrow> v \<noteq> 0)\<rparr>;
                 tgtdpt = c_int (bufsize - depth_alpha)
             in c_bind
                  (if tgtdpt = visualdepth \<and> tgtdpt < 32 \<and> rgb
                   then glx_update_fbconfig_bydepth dpy tbl tgtdpt
                          (fbinfo\<lparr>texture_fmt := GLX_TEXTURE_FORMAT_RGB_EXT\<rparr>)
                   else Returns tbl)
                  (\<lambda>tbl1.
                     if bufsize = visualdepth \<and> rgba
                     then glx_update_fbconfig_bydepth dpy tbl1 bufsize
                            (fbinfo\<lparr>texture_fmt := GLX_TEXTURE_FORMAT_RGBA_EXT\<rparr>)
                     else Returns tbl1))))))"

fun glx_update_fbconfig_loop ::
  "glx_display \<Rightarrow> glx_fbconfig_t option list \<Rightarrow> nat list \<Rightarrow> glx_fbconfig_t option list c_result" where
  "glx_update_fbconfig_loop dpy tbl [] = Returns tbl"
| "glx_update_fbconfig_loop dpy tbl (pcur # rest) =
     c_bind (glx_update_fbconfig_step dpy tbl pcur)
       (\<lambda>tbl1. glx_update_fbconfig_loop dpy tbl1 rest)"

text \<open>
  \<open>glx_update_fbconfig\<close>: runs the loop over all FBConfigs of the screen and reports
  whether the default depth \<open>ps->depth\<close> got an FBConfig; the result carries the table.
  Before it returns true the function logs
  \<^verbatim>\<open>log_trace("%d-bit: %p, 32-bit: %p", ps->depth, ps->psglx->fbconfigs[ps->depth]->cfg, ps->psglx->fbconfigs[32]->cfg)\<close>,
  which reads through \<open>fbconfigs[32]\<close> whether or not it is \<open>NULL\<close>; the arguments of
  \<open>log_trace\<close> are taken to be evaluated, and reading through \<open>NULL\<close> is undefined.
\<close>

definition glx_update_fbconfig ::
  "glx_display \<Rightarrow> glx_fbconfig_t option list \<Rightarrow> nat
     \<Rightarrow> (bool \<times> glx_fbconfig_t option list) c_result" where
  "glx_update_fbconfig dpy tbl default_depth =
     c_bind (glx_update_fbconfig_loop dpy tbl (glXGetFBConfigs dpy))
       (\<lambda>tbl1. if \<not> default_depth < length tbl1 then Undefined
               else if tbl1 ! default_depth = None then Returns (False, tbl1)
               else if \<not> 32 < length tbl1 then Undefined
               else if tbl1 ! 32 = None then Undefined
               else Returns (True, tbl1))"

text \<open>
  The acceptance condition as the spec words it, for an FBConfig record \<open>f\<close> kept for
  depth \<open>d\<close>: buffer size minus alpha size equals the visual depth and the FBConfig is
  RGB-bindable (format RGB), or buffer size equals the visual depth and it is
  RGBA-bindable (format RGBA).
\<close>

definition fbconfig_accepted :: "glx_display \<Rightarrow> glx_fbconfig_t \<Rightarrow> nat \<Rightarrow> bool" where
  "fbconfig_accepted dpy f d =
     (case glXGetFBConfigAttrib dpy (cfg f) GLX_BUFFER_SIZE of
        None \<Rightarrow> False
      | Some bufsize \<Rightarrow>
     (case glXGetFBConfigAttrib dpy (cfg f) GLX_ALPHA_SIZE of
        None \<Rightarrow> False
      | Some depth_alpha \<Rightarrow>
     (case glXGetVisualFromFBConfig dpy (cfg f) of
        None \<Rightarrow> False
      | Some visualdepth \<Rightarrow>
          (c_int (bufsize - depth_alpha) = visualdepth \<and> int d = visualdepth
             \<and> (case glXGetFBConfigAttrib dpy (cfg f) GLX_BIND_TO_TEXTURE_RGB_EXT of
                   None \<Rightarrow> False | Some v \<Rightarrow> v \<noteq> 0)
             \<and> texture_fmt f = GLX_TEXTURE_FORMAT_RGB_EXT)
          \<or>
          (bufsize = visualdepth \<and> int d = visualdepth
             \<and> (case glXGetFBConfigAttrib dpy (cfg f) GLX_BIND_TO_TEXTURE_RGBA_EXT of
                   None \<Rightarrow> False | Some v \<Rightarrow> v \<noteq> 0)
             \<and> texture_fmt f = GLX_TEXTURE_FORMAT_RGBA_EXT))))"

text \<open>
  The ranking read off the comparator: \<open>a\<close> is ranked strictly better than \<open>b\<close> when
  \<open>glx_cmp_fbconfig(a, b)\<close> returns a positive value.
\<close>

definition fbconfig_better ::
  "glx_display \<Rightarrow> glx_fbconfig_t option \<Rightarrow> glx_fbconfig_t option \<Rightarrow> bool" where
  "fbconfig_better dpy a b =
     (case glx_cmp_fbconfig dpy a b of Returns r \<Rightarrow> r > 0 | Aborts \<Rightarrow> False | Undefined \<Rightarrow> False)"

text \<open>
  The replacement test of \<open>glx_update_fbconfig_bydepth\<close>: the new FBConfig overrides the
  current one when \<open>glx_cmp_fbconfig(current, new)\<close> is negative.
\<close>

definition fbconfig_overrides ::
  "glx_display \<Rightarrow> glx_fbconfig_t option \<Rightarrow> glx_fbconfig_t option \<Rightarrow> bool" where
  "fbconfig_overrides dpy new cur =
     (case glx_cmp_fbconfig dpy cur new of Returns r \<Rightarrow> r < 0 | Aborts \<Rightarrow> False | Undefined \<Rightarrow> False)"

text \<open>
  The attributes that the comparator subtracts, and the condition on a candidate under
  which the comparison is meaningful: its red size can be queried, and the compared
  attributes (booleans and bit counts in GLX) are non-negative \<open>int\<close> values.
\<close>

definition cmp_attrs :: "glx_attr list" where
  "cmp_attrs = [GLX_BIND_TO_TEXTURE_RGBA_EXT, GLX_DOUBLEBUFFER, GLX_STENCIL_SIZE,
                GLX_DEPTH_SIZE, GLX_BIND_TO_MIPMAP_TEXTURE_EXT]"

definition attr_val :: "glx_display \<Rightarrow> glx_fbconfig_t \<Rightarrow> glx_attr \<Rightarrow> int" where
  "attr_val dpy c attr = (case glXGetFBConfigAttrib dpy (cfg c) attr of None \<Rightarrow> 0 | Some v \<Rightarrow> v)"

definition candidate_ok :: "glx_display \<Rightarrow> glx_fbconfig_t \<Rightarrow> bool" where
  "candidate_ok dpy c =
     (glXGetFBConfigAttrib dpy (cfg c) GLX_RED_SIZE \<noteq> None \<and>
      list_all (\<lambda>attr. 0 \<le> attr_val dpy c attr \<and> attr_val dpy c attr < 2 ^ 31) cmp_attrs)"

definition red_size :: "glx_display \<Rightarrow> glx_fbconfig_t \<Rightarrow> int option" where
  "red_size dpy c = glXGetFBConfigAttrib dpy (cfg c) GLX_RED_SIZE"

section \<open>Shader builder: \<open>glx_init_conv_blur\<close>, \<open>glx_init_kawase_blur\<close>, \<open>glx_init_blur\<close>\<close>

text \<open>
  The fragment shader is the C string built with \<open>sprintf\<close>, a list of characters. Each
  format string of the source is given as the function that \<open>sprintf\<close> computes from it:
  the text of the format with its conversions replaced, in order, by the printed
  arguments. The format string itself is that text at the conversions, for instance
  \<open>FRAG_SHADER_BLUR_PREFIX ''%s'' ''%s''\<close>, and this is how \<open>strlen\<close> of a format is
  written below.
\<close>

definition FRAG_SHADER_BLUR_PREFIX :: "string \<Rightarrow> string \<Rightarrow> string" where
  "FRAG_SHADER_BLUR_PREFIX a1 a2 =
     ''#version 110\<newline>''
     @ a1
     @ ''uniform float offset_x;\<newline>''
     @ ''uniform float offset_y;\<newline>''
     @ ''uniform float factor_center;\<newline>''
     @ ''uniform '' @ a2 @ '' tex_scr;\<newline>''
     @ ''\<newline>''
     @ ''void main() {\<newline>''
     @ ''  vec4 sum = vec4(0.0, 0.0, 0.0, 0.0);\<newline>''"

definition FRAG_SHADER_BLUR_ADD :: "string \<Rightarrow> string \<Rightarrow> string \<Rightarrow> string \<Rightarrow> string" where
  "FRAG_SHADER_BLUR_ADD a1 a2 a3 a4 =
     ''  sum += float('' @ a1 @ '') * '' @ a2
     @ ''(tex_scr, vec2(gl_TexCoord[0].x + offset_x * float('' @ a3
     @ ''), gl_TexCoord[0].y + offset_y * float('' @ a4 @ '')));\<newline>''"

definition FRAG_SHADER_BLUR_ADD_GPUSHADER4 ::
  "string \<Rightarrow> string \<Rightarrow> string \<Rightarrow> string \<Rightarrow> string" where
  "FRAG_SHADER_BLUR_ADD_GPUSHADER4 a1 a2 a3 a4 =
     ''  sum += float('' @ a1 @ '') * '' @ a2
     @ ''Offset(tex_scr, vec2(gl_TexCoord[0].x, gl_TexCoord[0].y), ivec2('' @ a3
     @ '', '' @ a4 @ ''));\<newline>''"

definition FRAG_SHADER_BLUR_SUFFIX :: "string \<Rightarrow> string \<Rightarrow> string" where
  "FRAG_SHADER_BLUR_SUFFIX a1 a2 =
     ''  sum += '' @ a1
     @ ''(tex_scr, vec2(gl_TexCoord[0].x, gl_TexCoord[0].y)) * factor_center;\<newline>''
     @ ''  gl_FragColor = sum / (factor_center + float('' @ a2 @ ''));\<newline>''
     @ ''}\<newline>''"

definition FRAG_SHADER_PREFIX :: "string \<Rightarrow> string \<Rightarrow> string \<Rightarrow> string" where
  "FRAG_SHADER_PREFIX a1 a2 a3 =
     ''#version 110\<newline>''
     @ a1
     @ ''uniform float offset;\<newline>''
     @ ''uniform vec2 halfpixel;\<newline>''
     @ ''uniform vec2 fulltex;\<newline>''
     @ ''uniform '' @ a2 @ '' tex_scr;\<newline>''
     @ ''vec4 clamp_tex(vec2 uv)\<newline>''
     @ ''{\<newline>''
     @ ''  return '' @ a3 @ ''(tex_scr, clamp(uv, vec2(0), fulltex));\<newline>''
     @ ''}\<newline>''
     @ ''\<newline>''
     @ ''void main()\<newline>''
     @ ''{\<newline>''
     @ ''  vec2 uv = (gl_TexCoord[0].xy / fulltex);\<newline>''
     @ ''  \<newline>''"

definition FRAG_SHADER_KAWASE_DOWN :: string where
  "FRAG_SHADER_KAWASE_DOWN =
     ''  vec4 sum = clamp_tex(uv) * 4.0;\<newline>''
     @ ''  sum += clamp_tex(uv - halfpixel.xy * offset);\<newline>''
     @ ''  sum += clamp_tex(uv + halfpixel.xy * offset);\<newline>''
     @ ''  sum += clamp_tex(uv + vec2(halfpixel.x, -halfpixel.y) * offset);\<newline>''
     @ ''  sum += clamp_tex(uv - vec2(halfpixel.x, -halfpixel.y) * offset);\<newline>''
     @ ''\<newline>''
     @ ''  gl_FragColor = sum / 8.0;\<newline>''
     @ ''}\<newline>''"

definition FRAG_SHADER_KAWASE_UP :: string where
  "FRAG_SHADER_KAWASE_UP =
     ''  vec4 sum = clamp_tex(uv + vec2(-halfpixel.x * 2.0, 0.0) * offset);\<newline>''
     @ ''  sum += clamp_tex(uv + vec2(-halfpixel.x, halfpixel.y) * offset) * 2.0;\<newline>''
     @ ''  sum += clamp_tex(uv + vec2(0.0, halfpixel.y * 2.0) * offset);\<newline>''
     @ ''  sum += clamp_tex(uv + vec2(halfpixel.x, halfpixel.y) * offset) * 2.0;\<newline>''
     @ ''  sum += clamp_tex(uv + vec2(halfpixel.x * 2.0, 0.0) * offset);\<newline>''
     @ ''  sum += clamp_tex(uv + vec2(halfpixel.x, -halfpixel.y) * offset) * 2.0;\<newline>''
     @ ''  sum += clamp_tex(uv + vec2(0.0, -halfpixel.y * 2.0) * offset);\<newline>''
     @ ''  sum += clamp_tex(uv + vec2(-halfpixel.x, -halfpixel.y) * offset) * 2.0;\<newline>''
     @ ''\<newline>''
     @ ''  gl_FragColor = sum / 12.0;\<newline>''
     @ ''}\<newline>''"

text \<open>
  What the conversion \<open>%d\<close> prints for an \<open>int\<close>: the decimal digits, after a minus
  sign for a negative number.
\<close>

fun dec_digits :: "nat \<Rightarrow> string" where
  "dec_digits n =
     (if n < 10 then [''0123456789'' ! n]
      else dec_digits (n div 10) @ [''0123456789'' ! (n mod 10)])"

declare dec_digits.simps [simp del]

definition c_dec :: "int \<Rightarrow> string" where
  "c_dec i = (if i < 0 then CHR ''-'' # dec_digits (nat (- i)) else dec_digits (nat i))"

datatype blur_method = BLRMTHD_NONE | BLRMTHD_CONV | BLRMTHD_KAWASE

record glx_blur_pass_t =
  frag_shader :: nat
  prog :: nat
  unifm_factor_center :: int
  unifm_offset_x :: int
  unifm_offset_y :: int
  unifm_offset :: int
  unifm_halfpixel :: int
  unifm_fulltex :: int

text \<open>
  The part of \<open>session_t\<close> read and written by blur initialisation:
  \<open>ps->o.blur_method\<close>, \<open>ps->o.blur_kerns\<close> (an array of \<open>MAX_BLUR_PASS\<close> kernel
  pointers, \<open>None\<close> for \<open>NULL\<close>; a kernel is an array of 16.16 fixed-point numbers: width,
  height, then the weights row by row), \<open>ps->o.glx_use_gpushader4\<close>,
  \<open>ps->psglx->has_texture_non_power_of_two\<close> (here \<open>blur_has_npot\<close>) and
  \<open>ps->psglx->blur_passes\<close> (an array of \<open>MAX_BLUR_PASS\<close> passes).
\<close>

record blur_session =
  blur_method :: blur_method
  blur_kerns :: "int list option list"
  glx_use_gpushader4 :: bool
  blur_has_npot :: bool
  blur_passes :: "glx_blur_pass_t list"

text \<open>
  What the GL driver answers during blur initialisation: the framebuffer name written
  by \<open>glGenFramebuffers\<close> (0 when it writes none), the shader that
  \<open>glx_create_shader\<close> returns for a source text (0 on failure), the program that
  \<open>glx_create_program\<close> returns for a shader (0 on failure), the uniform locations, and
  whether \<open>calloc\<close> succeeds.
\<close>

record blur_env =
  glGenFramebuffers :: nat
  glx_create_shader :: "string \<Rightarrow> nat"
  glx_create_program :: "nat \<Rightarrow> nat"
  glGetUniformLocation :: "nat \<Rightarrow> string \<Rightarrow> int"
  calloc_ok :: bool

text \<open>The strings chosen from \<open>use_texture_rect\<close> and \<open>glx_use_gpushader4\<close>.\<close>

definition blur_extension :: "blur_session \<Rightarrow> bool \<Rightarrow> string" where
  "blur_extension ps gpushader4 =
     (if \<not> blur_has_npot ps then ''#extension GL_ARB_texture_rectangle : require\<newline>'' else [])
     @ (if gpushader4 then ''#extension GL_EXT_gpu_shader4 : require\<newline>'' else [])"

definition blur_sampler_type :: "blur_session \<Rightarrow> string" where
  "blur_sampler_type ps = (if \<not> blur_has_npot ps then ''sampler2DRect'' else ''sampler2D'')"

definition blur_texture_func :: "blur_session \<Rightarrow> string" where
  "blur_texture_func ps = (if \<not> blur_has_npot ps then ''texture2DRect'' else ''texture2D'')"

text \<open>
  \<open>shader_add\<close>: \<open>FRAG_SHADER_BLUR_ADD\<close>, or \<open>FRAG_SHADER_BLUR_ADD_GPUSHADER4\<close> with
  \<open>glx_use_gpushader4\<close>.
\<close>

definition shader_add :: "bool \<Rightarrow> string \<Rightarrow> string \<Rightarrow> string \<Rightarrow> string \<Rightarrow> string" where
  "shader_add gpushader4 =
     (if gpushader4 then FRAG_SHADER_BLUR_ADD_GPUSHADER4 else FRAG_SHADER_BLUR_ADD)"

text \<open>
  The size of the buffer allocated for the shader text of a \<open>wid\<close> by \<open>hei\<close> kernel:
  \<^verbatim>\<open>
  int nele = wid * hei - 1;
  unsigned int len = strlen(FRAG_SHADER_BLUR_PREFIX) + strlen(sampler_type) + strlen(extension)
      + (strlen(shader_add) + strlen(texture_func) + 42) * nele
      + strlen(FRAG_SHADER_BLUR_SUFFIX) + strlen(texture_func) + 12 + 1;
  \<close>
  \<open>nele\<close> is an \<open>int\<close>; the sum is computed in \<open>size_t\<close> and stored in an
  \<open>unsigned int\<close>, so it is the integer value modulo \<open>2 ^ 32\<close> (also for a negative
  \<open>nele\<close>).
\<close>

definition conv_blur_len :: "bool \<Rightarrow> string \<Rightarrow> string \<Rightarrow> string \<Rightarrow> int \<Rightarrow> int \<Rightarrow> nat" where
  "conv_blur_len gpushader4 extension sampler_type texture_func wid hei =
     (let nele = c_int (c_int (wid * hei) - 1) in
      nat ((int (length (FRAG_SHADER_BLUR_PREFIX ''%s'' ''%s''))
            + int (length sampler_type) + int (length extension)
            + (int (length (shader_add gpushader4 ''%.7g'' ''%s'' ''%d'' ''%d''))
               + int (length texture_func) + 42) * nele
            + int (length (FRAG_SHADER_BLUR_SUFFIX ''%s'' ''%.7g''))
            + int (length texture_func) + 12 + 1) mod 2 ^ 32))"

text \<open>
  One cell of the kernel, the body of the two nested loops over \<open>j\<close> (rows) and \<open>k\<close>
  (columns). \<open>to_double\<close> is the macro \<open>XFIXED_TO_DOUBLE\<close>, declared outside the
  sources, and \<open>fmt_g\<close> is the text that the conversion \<open>%.7g\<close> of the C library prints
  for a \<open>double\<close>; \<open>acc\<close> is the pair of the running \<open>sum\<close> and the shader text so far,
  \<open>len\<close> the size of the buffer. A read past the kernel array is undefined. \<open>sprintf\<close>
  writes the line and a terminating zero byte behind the text: unless the new text is
  shorter than \<open>len\<close> the write runs past the buffer (undefined), which is the very case
  in which the \<open>assert(strlen(shader_str) < len)\<close> that follows would fail.
\<close>

definition conv_blur_cell ::
  "(int \<Rightarrow> 'd::{zero,plus}) \<Rightarrow> ('d \<Rightarrow> string) \<Rightarrow> bool \<Rightarrow> string \<Rightarrow> nat \<Rightarrow> int list
     \<Rightarrow> int \<Rightarrow> int \<Rightarrow> nat \<Rightarrow> nat \<Rightarrow> 'd \<times> string \<Rightarrow> ('d \<times> string) c_result" where
  "conv_blur_cell to_double fmt_g gpushader4 texture_func len kern wid hei j k acc =
     (if hei sdiv 2 = int j \<and> wid sdiv 2 = int k then Returns acc
      else if \<not> (0 \<le> 2 + int j * wid + int k \<and> nat (2 + int j * wid + int k) < length kern)
      then Undefined
      else
        let val = to_double (kern ! nat (2 + int j * wid + int k)) in
        if 0 = val then Returns acc
        else
          let text = snd acc @ shader_add gpushader4 (fmt_g val) texture_func
                       (c_dec (int k - wid sdiv 2)) (c_dec (int j - hei sdiv 2))
          in if \<not> length text < len then Undefined
             else Returns (fst acc + val, text))"

definition conv_blur_row ::
  "(int \<Rightarrow> 'd::{zero,plus}) \<Rightarrow> ('d \<Rightarrow> string) \<Rightarrow> bool \<Rightarrow> string \<Rightarrow> nat \<Rightarrow> int list
     \<Rightarrow> int \<Rightarrow> int \<Rightarrow> nat \<Rightarrow> 'd \<times> string \<Rightarrow> ('d \<times> string) c_result" where
  "conv_blur_row to_double fmt_g gpushader4 texture_func len kern wid hei j acc =
     fold (\<lambda>k r. c_bind r
             (conv_blur_cell to_double fmt_g gpushader4 texture_func len kern wid hei j k))
       [0..<nat wid] (Returns acc)"

text \<open>
  The block "Build shader" of \<open>glx_init_conv_blur\<close> for one kernel: the buffer of \<open>len\<close>
  bytes, the prefix, one line per cell that is neither the centre nor zero, and the
  suffix with the sum. \<open>to_int\<close> is the conversion of a \<open>double\<close> to \<open>int\<close> in
  \<open>int wid = XFIXED_TO_DOUBLE(kern[0])\<close>, and \<open>alloc_ok\<close> tells whether \<open>calloc\<close>
  succeeds (\<open>ccalloc\<close> aborts when it does not). Each \<open>sprintf\<close> must leave the text
  shorter than \<open>len\<close>, as for the lines.
\<close>

definition conv_blur_shader ::
  "(int \<Rightarrow> 'd::{zero,plus}) \<Rightarrow> ('d \<Rightarrow> int) \<Rightarrow> ('d \<Rightarrow> string) \<Rightarrow> bool \<Rightarrow> bool \<Rightarrow> string
     \<Rightarrow> string \<Rightarrow> string \<Rightarrow> int list \<Rightarrow> string c_result" where
  "conv_blur_shader to_double to_int fmt_g alloc_ok gpushader4 extension sampler_type
       texture_func kern =
     (if length kern < 2 then Undefined
      else
        let wid = to_int (to_double (kern ! 0));
            hei = to_int (to_double (kern ! 1));
            len = conv_blur_len gpushader4 extension sampler_type texture_func wid hei;
            text0 = FRAG_SHADER_BLUR_PREFIX extension sampler_type
        in if \<not> alloc_ok then Aborts
           else if \<not> length text0 < len then Undefined
           else
             c_bind
               (fold (\<lambda>j r. c_bind r
                        (conv_blur_row to_double fmt_g gpushader4 texture_func len kern wid hei j))
                  [0..<nat hei] (Returns (0, text0)))
               (\<lambda>acc. let text = snd acc @ FRAG_SHADER_BLUR_SUFFIX texture_func (fmt_g (fst acc))
                       in if \<not> length text < len then Undefined else Returns text))"

text \<open>
  Shader, program and uniform locations of one pass of \<open>glx_init_conv_blur\<close>, given the
  shader text: \<open>Inl\<close> is the pass at a \<open>return false\<close>, \<open>Inr\<close> the finished pass.
\<close>

definition conv_blur_build_pass ::
  "blur_session \<Rightarrow> blur_env \<Rightarrow> glx_blur_pass_t \<Rightarrow> string
     \<Rightarrow> glx_blur_pass_t + glx_blur_pass_t" where
  "conv_blur_build_pass ps env ppass0 shader_str =
     (let ppass = ppass0\<lparr>frag_shader := glx_create_shader env shader_str\<rparr> in
      if frag_shader ppass = 0 then Inl ppass
      else
        let ppass1 = ppass\<lparr>prog := glx_create_program env (frag_shader ppass)\<rparr> in
        if prog ppass1 = 0 then Inl ppass1
        else
          let ppass2 = ppass1\<lparr>unifm_factor_center :=
                  glGetUniformLocation env (prog ppass1) ''factor_center''\<rparr>
          in Inr (if \<not> glx_use_gpushader4 ps
                  then ppass2\<lparr>unifm_offset_x :=
                          glGetUniformLocation env (prog ppass1) ''offset_x'',
                        unifm_offset_y :=
                          glGetUniformLocation env (prog ppass1) ''offset_y''\<rparr>
                  else ppass2))"

text \<open>
  The loop over the kernels of \<open>glx_init_conv_blur\<close>, from pass \<open>i\<close> on:
  \<^verbatim>\<open>for (int i = 0; i < MAX_BLUR_PASS && ps->o.blur_kerns[i]; ++i)\<close>.
  It returns false as soon as a shader or a program cannot be created.
\<close>

function conv_blur_passes ::
  "(int \<Rightarrow> 'd::{zero,plus}) \<Rightarrow> ('d \<Rightarrow> int) \<Rightarrow> ('d \<Rightarrow> string) \<Rightarrow> nat \<Rightarrow> blur_session
     \<Rightarrow> blur_env \<Rightarrow> nat \<Rightarrow> glx_blur_pass_t list \<Rightarrow> (bool \<times> glx_blur_pass_t list) c_result" where
  "conv_blur_passes to_double to_int fmt_g MAX_BLUR_PASS ps env i passes =
     (if \<not> i < MAX_BLUR_PASS then Returns (True, passes)
      else if \<not> i < length (blur_kerns ps) then Undefined
      else (case blur_kerns ps ! i of
              None \<Rightarrow> Returns (True, passes)
            | Some kern \<Rightarrow>
                if \<not> i < length passes then Undefined
                else
                  (case conv_blur_shader to_double to_int fmt_g (calloc_ok env)
                          (glx_use_gpushader4 ps)
                          (blur_extension ps (glx_use_gpushader4 ps))
                          (blur_sampler_type ps) (blur_texture_func ps) kern of
                     Aborts \<Rightarrow> Aborts
                   | Undefined \<Rightarrow> Undefined
                   | Returns shader_str \<Rightarrow>
                       (case conv_blur_build_pass ps env (passes ! i) shader_str of
                          Inl ppass \<Rightarrow> Returns (False, passes[i := ppass])
                        | Inr ppass \<Rightarrow>
                            conv_blur_passes to_double to_int fmt_g MAX_BLUR_PASS ps env (i + 1)
                              (passes[i := ppass])))))"
  by pat_completeness auto
termination
  by (relation "measure (\<lambda>(td, ti, fg, m, ps, env, i, passes). m - i)") auto

declare conv_blur_passes.simps [simp del]

text \<open>
  \<open>glx_init_conv_blur\<close>: \<open>assert(ps->o.blur_kerns[0])\<close>; with a second kernel, a
  framebuffer must be available, else the function returns false at once; then the
  passes are built. The result is the return value and \<open>ps->psglx->blur_passes\<close>.
\<close>

definition glx_init_conv_blur ::
  "(int \<Rightarrow> 'd::{zero,plus}) \<Rightarrow> ('d \<Rightarrow> int) \<Rightarrow> ('d \<Rightarrow> string) \<Rightarrow> nat \<Rightarrow> blur_session
     \<Rightarrow> blur_env \<Rightarrow> (bool \<times> glx_blur_pass_t list) c_result" where
  "glx_init_conv_blur to_double to_int fmt_g MAX_BLUR_PASS ps env =
     (if \<not> 0 < length (blur_kerns ps) then Undefined
      else if blur_kerns ps ! 0 = None then Aborts
      else if \<not> 1 < length (blur_kerns ps) then Undefined
      else if blur_kerns ps ! 1 \<noteq> None \<and> glGenFramebuffers env = 0
      then Returns (False, blur_passes ps)
      else conv_blur_passes to_double to_int fmt_g MAX_BLUR_PASS ps env 0 (blur_passes ps))"

text \<open>
  One of the two programs of \<open>glx_init_kawase_blur\<close> (\<open>body\<close> is the down-sample or the
  up-sample shader text), stored in pass \<open>i\<close>. The buffer has
  \<^verbatim>\<open>strlen(FRAG_SHADER_PREFIX) + strlen(extension) + strlen(sampler_type) + strlen(texture_func) + strlen(body) + 1\<close>
  bytes; the prefix and the body are printed into it under the same condition on the
  length as in \<open>conv_blur_cell\<close>. (The body contains no conversion, so \<open>sprintf\<close> copies
  it.)
\<close>

definition kawase_blur_pass ::
  "blur_session \<Rightarrow> blur_env \<Rightarrow> string \<Rightarrow> nat \<Rightarrow> glx_blur_pass_t list
     \<Rightarrow> (bool \<times> glx_blur_pass_t list) c_result" where
  "kawase_blur_pass ps env body i passes =
     (if \<not> i < length passes then Undefined
      else
        let len = length (FRAG_SHADER_PREFIX ''%s'' ''%s'' ''%s'')
                  + length (blur_extension ps False) + length (blur_sampler_type ps)
                  + length (blur_texture_func ps) + length body + 1;
            text0 = FRAG_SHADER_PREFIX (blur_extension ps False) (blur_sampler_type ps)
                      (blur_texture_func ps);
            shader_str = text0 @ body
        in
        if \<not> calloc_ok env then Returns (False, passes)
        else if \<not> length text0 < len then Undefined
        else if \<not> length shader_str < len then Undefined
        else
          let ppass = (passes ! i)\<lparr>frag_shader := glx_create_shader env shader_str\<rparr> in
          if frag_shader ppass = 0 then Returns (False, passes[i := ppass])
          else
            let ppass1 = ppass\<lparr>prog := glx_create_program env (frag_shader ppass)\<rparr> in
            if prog ppass1 = 0 then Returns (False, passes[i := ppass1])
            else Returns (True, passes[i := ppass1\<lparr>
                   unifm_offset := glGetUniformLocation env (prog ppass1) ''offset'',
                   unifm_halfpixel := glGetUniformLocation env (prog ppass1) ''halfpixel'',
                   unifm_fulltex := glGetUniformLocation env (prog ppass1) ''fulltex''\<rparr>]))"

definition glx_init_kawase_blur ::
  "blur_session \<Rightarrow> blur_env \<Rightarrow> (bool \<times> glx_blur_pass_t list) c_result" where
  "glx_init_kawase_blur ps env =
     (if glGenFramebuffers env = 0 then Returns (False, blur_passes ps)
      else c_bind (kawase_blur_pass ps env FRAG_SHADER_KAWASE_DOWN 0 (blur_passes ps))
             (\<lambda>r. if \<not> fst r then Returns (False, snd r)
                   else kawase_blur_pass ps env FRAG_SHADER_KAWASE_UP 1 (snd r)))"

definition glx_init_blur ::
  "(int \<Rightarrow> 'd::{zero,plus}) \<Rightarrow> ('d \<Rightarrow> int) \<Rightarrow> ('d \<Rightarrow> string) \<Rightarrow> nat \<Rightarrow> blur_session
     \<Rightarrow> blur_env \<Rightarrow> (bool \<times> glx_blur_pass_t list) c_result" where
  "glx_init_blur to_double to_int fmt_g MAX_BLUR_PASS ps env =
     (case blur_method ps of
        BLRMTHD_CONV \<Rightarrow> glx_init_conv_blur to_double to_int fmt_g MAX_BLUR_PASS ps env
      | BLRMTHD_KAWASE \<Rightarrow> glx_init_kawase_blur ps env
      | BLRMTHD_NONE \<Rightarrow> Returns (False, blur_passes ps))"










text \<open>
  \<open>XFIXED_TO_DOUBLE\<close> on exact numbers: a 16.16 fixed-point value is its integer divided
  by 65536 (every such quotient is a \<open>double\<close>), and the conversion of a \<open>double\<close> to
  \<open>int\<close> truncates towards zero. For a whole number of fewer than 8 digits the
  conversion \<open>%.7g\<close> prints the decimal numeral; \<open>rat_g\<close> is \<open>%.7g\<close> on these numbers,
  which are the ones printed in the examples below, and gives no text for any other.
\<close>

definition xfixed_to_rat :: "int \<Rightarrow> rat" where
  "xfixed_to_rat x = of_int x / 65536"

definition rat_to_int :: "rat \<Rightarrow> int" where
  "rat_to_int q = (if 0 \<le> q then \<lfloor>q\<rfloor> else - \<lfloor>- q\<rfloor>)"

definition rat_g :: "rat \<Rightarrow> string" where
  "rat_g q = (if q = of_int \<lfloor>q\<rfloor> \<and> \<bar>q\<bar> < 10000000 then c_dec \<lfloor>q\<rfloor> else [])"

section \<open>Blur engine: \<open>glx_conv_blur_dst\<close> and \<open>glx_kawase_blur_dst\<close>\<close>

text \<open>
  The two enable flags of the GL context that the blur functions read with
  \<open>glIsEnabled\<close> and change with \<open>glEnable\<close> and \<open>glDisable\<close>. The other GL calls of
  the blur functions (texture and framebuffer binding, programs, uniforms, the quads
  drawn) do not change an enable flag of the scissor or the stencil test and are left
  out; of the rendering, \<open>glx_kawase_blur_dst\<close> keeps the list of the passes it runs.
\<close>

record gl_state =
  GL_SCISSOR_TEST :: bool
  GL_STENCIL_TEST :: bool

text \<open>
  \<open>glx_blur_cache_t\<close>: the scratch textures (an array of \<open>MAX_BLUR_PASS\<close> names), the
  framebuffer object and the size the textures were made for.
\<close>

record glx_blur_cache_t =
  textures :: "nat list"
  fbo :: nat
  bc_width :: int
  bc_height :: int

datatype blur_stage = Conv nat | Down nat | Up nat

text \<open>
  What the GL driver answers during one blur call: the name \<open>glx_gen_texture\<close> returns
  for the texture of slot \<open>i\<close> (0 on failure), the name \<open>glGenFramebuffers\<close> writes (0
  when it writes none), and whether \<open>glCheckFramebufferStatus\<close> reports the framebuffer
  complete at a given pass.
\<close>

record blur_driver =
  glx_gen_texture :: "nat \<Rightarrow> nat"
  gen_framebuffer :: nat
  framebuffer_complete :: "blur_stage \<Rightarrow> bool"

definition enable_saved :: "bool \<Rightarrow> bool \<Rightarrow> gl_state \<Rightarrow> gl_state" where
  \<comment> \<open>\<open>if (have_scissors) glEnable(GL_SCISSOR_TEST); if (have_stencil) glEnable(GL_STENCIL_TEST);\<close>\<close>
  "enable_saved have_scissors have_stencil gl =
     gl\<lparr>GL_SCISSOR_TEST := (if have_scissors then True else GL_SCISSOR_TEST gl),
        GL_STENCIL_TEST := (if have_stencil then True else GL_STENCIL_TEST gl)\<rparr>"

text \<open>
  The cache a blur function works on: the caller's, or the local \<open>ibc\<close> (all zero) when
  the caller passes \<open>NULL\<close>; then freed of its textures when the size differs
  (\<open>free_glx_bc_resize\<close>, declared outside the sources, is a parameter).
\<close>

definition blur_cache_for ::
  "(glx_blur_cache_t \<Rightarrow> glx_blur_cache_t) \<Rightarrow> nat \<Rightarrow> glx_blur_cache_t option \<Rightarrow> int \<Rightarrow> int
     \<Rightarrow> glx_blur_cache_t" where
  "blur_cache_for free_glx_bc_resize MAX_BLUR_PASS pbc mwidth mheight =
     (let c = (case pbc of
                 None \<Rightarrow> \<lparr>textures = replicate MAX_BLUR_PASS 0, fbo = 0,
                           bc_width = 0, bc_height = 0\<rparr>
               | Some c \<Rightarrow> c)
      in if mwidth \<noteq> bc_width c \<or> mheight \<noteq> bc_height c then free_glx_bc_resize c else c)"

text \<open>
  The pass loop of \<open>glx_conv_blur_dst\<close>, from pass \<open>i\<close> on:
  \<^verbatim>\<open>for (int i = 0; !last_pass; ++i) { last_pass = !ps->psglx->blur_passes[i + 1].prog; ... }\<close>.
  The result is \<open>ret\<close> (false after \<open>goto glx_conv_blur_dst_end\<close>) and the GL flags.
\<close>

function conv_blur_loop ::
  "nat \<Rightarrow> glx_blur_pass_t list \<Rightarrow> blur_driver \<Rightarrow> bool \<Rightarrow> bool \<Rightarrow> nat \<Rightarrow> nat \<Rightarrow> nat \<Rightarrow> gl_state
     \<Rightarrow> (bool \<times> gl_state) c_result" where
  "conv_blur_loop MAX_BLUR_PASS passes drv have_scissors have_stencil i tex_scr tex_scr2 gl =
     (if \<not> i + 1 < length passes then Undefined
      else if \<not> int i < int MAX_BLUR_PASS - 1 then Aborts
      else if prog (passes ! i) = 0 then Aborts
      else if tex_scr = 0 then Aborts
      else if \<not> (prog (passes ! (i + 1)) = 0)
      then (if \<not> framebuffer_complete drv (Conv i) then Returns (False, gl)
            else conv_blur_loop MAX_BLUR_PASS passes drv have_scissors have_stencil (i + 1)
                   tex_scr2 tex_scr gl)
      else Returns (True, enable_saved have_scissors have_stencil gl))"
  by pat_completeness auto
termination
  by (relation "measure (\<lambda>(m, passes, drv, hs, hst, i, t1, t2, gl). m - i)") auto

declare conv_blur_loop.simps [simp del]

text \<open>
  The part of \<open>glx_conv_blur_dst\<close> from the allocation checks to the label
  \<open>glx_conv_blur_dst_end\<close>: the result is \<open>ret\<close> and the GL flags on arrival at the label.
\<close>

definition conv_blur_body ::
  "nat \<Rightarrow> glx_blur_pass_t list \<Rightarrow> blur_driver \<Rightarrow> bool \<Rightarrow> nat \<Rightarrow> nat \<Rightarrow> nat \<Rightarrow> gl_state
     \<Rightarrow> (bool \<times> gl_state) c_result" where
  "conv_blur_body MAX_BLUR_PASS passes drv more_passes tex_scr tex_scr2 fbo_name gl =
     (if tex_scr = 0 \<or> (more_passes \<and> tex_scr2 = 0) then Returns (False, gl)
      else if more_passes \<and> fbo_name = 0 then Returns (False, gl)
      else conv_blur_loop MAX_BLUR_PASS passes drv (GL_SCISSOR_TEST gl) (GL_STENCIL_TEST gl) 0
             tex_scr tex_scr2
             (if more_passes
              then gl\<lparr>GL_STENCIL_TEST := False, GL_SCISSOR_TEST := False\<rparr>
              else gl))"

text \<open>
  \<open>glx_conv_blur_dst\<close> for the rectangle of size \<open>mwidth\<close> by \<open>mheight\<close>: the result is
  the return value, the GL flags and the cache (\<open>None\<close> when the local \<open>ibc\<close> was used and
  freed).
\<close>

definition glx_conv_blur_dst ::
  "(glx_blur_cache_t \<Rightarrow> glx_blur_cache_t) \<Rightarrow> nat \<Rightarrow> glx_blur_pass_t list \<Rightarrow> blur_driver
     \<Rightarrow> int \<Rightarrow> int \<Rightarrow> glx_blur_cache_t option \<Rightarrow> gl_state
     \<Rightarrow> (bool \<times> gl_state \<times> glx_blur_cache_t option) c_result" where
  "glx_conv_blur_dst free_glx_bc_resize MAX_BLUR_PASS passes drv mwidth mheight pbc gl =
     (if \<not> 1 < length passes then Undefined
      else
        let more_passes = (prog (passes ! 1) \<noteq> 0);
            have_scissors = GL_SCISSOR_TEST gl;
            have_stencil = GL_STENCIL_TEST gl;
            c0 = blur_cache_for free_glx_bc_resize MAX_BLUR_PASS pbc mwidth mheight
        in if \<not> 1 < length (textures c0) then Undefined
           else
             let c1 = (if textures c0 ! 0 = 0
                       then c0\<lparr>textures := (textures c0)[0 := glx_gen_texture drv 0]\<rparr> else c0);
                 tex_scr = textures c1 ! 0;
                 c2 = (if more_passes \<and> textures c1 ! 1 = 0
                       then c1\<lparr>textures := (textures c1)[1 := glx_gen_texture drv 1]\<rparr> else c1);
                 c3 = c2\<lparr>bc_width := mwidth, bc_height := mheight\<rparr>;
                 tex_scr2 = textures c3 ! 1;
                 c4 = (if more_passes \<and> fbo c3 = 0 then c3\<lparr>fbo := gen_framebuffer drv\<rparr> else c3)
             in c_bind
                  (conv_blur_body MAX_BLUR_PASS passes drv more_passes tex_scr tex_scr2 (fbo c4) gl)
                  (\<lambda>r. Returns (fst r, enable_saved have_scissors have_stencil (snd r),
                                  (case pbc of None \<Rightarrow> None | Some c \<Rightarrow> Some c4))))"

text \<open>
  \<^verbatim>\<open>for (int i = 1; i <= iterations; i++) { if (!pbc->textures[i]) pbc->textures[i] = glx_gen_texture(...); }\<close>
  over the slots \<open>is\<close>.
\<close>

fun kawase_gen_textures :: "blur_driver \<Rightarrow> nat list \<Rightarrow> nat list \<Rightarrow> nat list" where
  "kawase_gen_textures drv [] texs = texs"
| "kawase_gen_textures drv (i # is) texs =
     kawase_gen_textures drv is (if texs ! i = 0 then texs[i := glx_gen_texture drv i] else texs)"

text \<open>
  The down-sample loop over the levels \<open>is\<close> (\<open>1\<close> to \<open>iterations\<close>): \<open>True\<close> when every
  pass ran, \<open>False\<close> at \<open>goto glx_kawase_blur_dst_end\<close>. It changes no enable flag.
  \<open>drawn\<close> lists the passes rendered so far (a pass is rendered after its framebuffer was
  found complete).
\<close>

fun kawase_down ::
  "glx_blur_pass_t list \<Rightarrow> blur_driver \<Rightarrow> nat list \<Rightarrow> nat list \<Rightarrow> blur_stage list
     \<Rightarrow> (bool \<times> blur_stage list) c_result" where
  "kawase_down passes drv texs [] drawn = Returns (True, drawn)"
| "kawase_down passes drv texs (i # is) drawn =
     (if prog (passes ! 0) = 0 then Aborts
      else if texs ! (i - 1) = 0 then Aborts
      else if texs ! i = 0 then Aborts
      else if \<not> framebuffer_complete drv (Down i) then Returns (False, drawn)
      else kawase_down passes drv texs is (drawn @ [Down i]))"

text \<open>
  The up-sample loop over the levels \<open>is\<close> (\<open>iterations\<close> down to \<open>1\<close>); the last level
  draws to the back buffer after re-enabling the tests that were on at entry. (The
  texture sizes sent as uniforms are not part of the model; at the last level the source
  computes \<open>mwidth / (1 << (i-2))\<close> with \<open>i = 1\<close> and then replaces the value by
  \<open>mwidth\<close>.)
\<close>

fun kawase_up ::
  "glx_blur_pass_t list \<Rightarrow> blur_driver \<Rightarrow> bool \<Rightarrow> bool \<Rightarrow> nat list \<Rightarrow> nat list \<Rightarrow> gl_state
     \<Rightarrow> blur_stage list \<Rightarrow> (bool \<times> gl_state \<times> blur_stage list) c_result" where
  "kawase_up passes drv have_scissors have_stencil texs [] gl drawn = Returns (True, gl, drawn)"
| "kawase_up passes drv have_scissors have_stencil texs (i # is) gl drawn =
     (if prog (passes ! 1) = 0 then Aborts
      else if texs ! i = 0 then Aborts
      else if texs ! (i - 1) = 0 then Aborts
      else if \<not> (i = 1)
      then (if \<not> framebuffer_complete drv (Up i) then Returns (False, gl, drawn)
            else kawase_up passes drv have_scissors have_stencil texs is gl (drawn @ [Up i]))
      else kawase_up passes drv have_scissors have_stencil texs is
             (enable_saved have_scissors have_stencil gl) (drawn @ [Up i]))"

text \<open>
  The part of \<open>glx_kawase_blur_dst\<close> from the allocation checks to the label
  \<open>glx_kawase_blur_dst_end\<close>, over the levels \<open>1\<close> to \<open>iterations\<close>: the result is
  \<open>ret\<close>, the GL flags on arrival at the label and the passes rendered.
\<close>

definition kawase_blur_body ::
  "glx_blur_pass_t list \<Rightarrow> blur_driver \<Rightarrow> nat \<Rightarrow> nat list \<Rightarrow> nat \<Rightarrow> nat list \<Rightarrow> gl_state
     \<Rightarrow> (bool \<times> gl_state \<times> blur_stage list) c_result" where
  "kawase_blur_body passes drv tex_scr texs fbo_name levels gl =
     (if tex_scr = 0 then Returns (False, gl, [])
      else if list_ex (\<lambda>i. texs ! i = 0) levels then Returns (False, gl, [])
      else if fbo_name = 0 then Returns (False, gl, [])
      else
        c_bind (kawase_down passes drv texs levels [])
          (\<lambda>down.
             if \<not> fst down
             then Returns (False, gl\<lparr>GL_STENCIL_TEST := False, GL_SCISSOR_TEST := False\<rparr>,
                           snd down)
             else kawase_up passes drv (GL_SCISSOR_TEST gl) (GL_STENCIL_TEST gl) texs (rev levels)
                    (gl\<lparr>GL_STENCIL_TEST := False, GL_SCISSOR_TEST := False\<rparr>) (snd down)))"

text \<open>
  \<open>glx_kawase_blur_dst\<close> for the rectangle of size \<open>mwidth\<close> by \<open>mheight\<close>, with
  \<open>iterations0\<close> the configured \<open>ps->o.blur_strength.iterations\<close>: the result is the
  return value, the GL flags, the cache (\<open>None\<close> when the local \<open>ibc\<close> was used and freed)
  and the passes rendered, in order.
\<close>

definition glx_kawase_blur_dst ::
  "(glx_blur_cache_t \<Rightarrow> glx_blur_cache_t) \<Rightarrow> nat \<Rightarrow> glx_blur_pass_t list \<Rightarrow> blur_driver
     \<Rightarrow> int \<Rightarrow> int \<Rightarrow> int \<Rightarrow> glx_blur_cache_t option \<Rightarrow> gl_state
     \<Rightarrow> (bool \<times> gl_state \<times> glx_blur_cache_t option \<times> blur_stage list) c_result" where
  "glx_kawase_blur_dst free_glx_bc_resize MAX_BLUR_PASS passes drv iterations0 mwidth mheight
       pbc gl =
     (let have_scissors = GL_SCISSOR_TEST gl;
          have_stencil = GL_STENCIL_TEST gl;
          c0 = blur_cache_for free_glx_bc_resize MAX_BLUR_PASS pbc mwidth mheight
      in if \<not> 0 < length (textures c0) then Undefined
         else
           let c1 = (if textures c0 ! 0 = 0
                     then c0\<lparr>textures := (textures c0)[0 := glx_gen_texture drv 0]\<rparr> else c0);
               tex_scr = textures c1 ! 0
           in (case reduce_iterations mwidth mheight iterations0 of
                 None \<Rightarrow> Undefined
               | Some iterations \<Rightarrow>
                   if \<not> iterations < int MAX_BLUR_PASS then Aborts
                   else if \<not> nat iterations < length (textures c1) then Undefined
                   else if \<not> 1 < length passes then Undefined
                   else
                     let levels = [1..<Suc (nat iterations)];
                         c2 = c1\<lparr>textures := kawase_gen_textures drv levels (textures c1),
                                 bc_width := mwidth, bc_height := mheight\<rparr>;
                         c3 = (if fbo c2 = 0 then c2\<lparr>fbo := gen_framebuffer drv\<rparr> else c2)
                     in c_bind
                          (kawase_blur_body passes drv tex_scr (textures c3) (fbo c3) levels gl)
                          (\<lambda>r. Returns (fst r,
                                  enable_saved have_scissors have_stencil (fst (snd r)),
                                  (case pbc of None \<Rightarrow> None | Some c \<Rightarrow> Some c3),
                                  snd (snd r)))))"

text \<open>
  The key by which two candidates with red size 8 are compared, first component first;
  the smaller key is the better candidate.
\<close>

definition rank_key :: "glx_display \<Rightarrow> glx_fbconfig_t \<Rightarrow> int \<times> int \<times> int \<times> int \<times> int" where
  "rank_key dpy c =
     (attr_val dpy c GLX_BIND_TO_TEXTURE_RGBA_EXT, attr_val dpy c GLX_DOUBLEBUFFER,
      attr_val dpy c GLX_STENCIL_SIZE, attr_val dpy c GLX_DEPTH_SIZE,
      - attr_val dpy c GLX_BIND_TO_MIPMAP_TEXTURE_EXT)"

section \<open>Properties\<close>

lemma sdiv_pos_eq_div: "0 \<le> (a::int) \<Longrightarrow> 0 < b \<Longrightarrow> a sdiv b = a div b"
  by (simp add: signed_divide_int_def sgn_if)


lemma c_bind_Returns:
  "c_bind r f = Returns y \<longleftrightarrow> (\<exists>x. r = Returns x \<and> f x = Returns y)"
  by (cases r) (simp_all add: c_bind_def)

subsection \<open>Iteration count of the dual Kawase blur\<close>

text \<open>
  The reduction loop on its own: for \<open>W \<ge> 1\<close>, \<open>H \<ge> 1\<close> and \<open>1 \<le> I \<le> 31\<close> it ends
  without an undefined shift, at the largest \<open>i \<le> I\<close> with \<open>W >> (i - 1) \<ge> 1\<close> and
  \<open>H >> (i - 1) \<ge> 1\<close>.
\<close>

lemma reduce_iterations_largest:
  "1 \<le> W \<Longrightarrow> 1 \<le> H \<Longrightarrow> 1 \<le> I \<Longrightarrow> I \<le> 31 \<Longrightarrow>
   \<exists>r. reduce_iterations W H I = Some r \<and> 1 \<le> r \<and> r \<le> I
     \<and> 1 \<le> drop_bit (nat (r - 1)) W \<and> 1 \<le> drop_bit (nat (r - 1)) H
     \<and> (\<forall>i. r < i \<and> i \<le> I \<longrightarrow>
           \<not> (1 \<le> drop_bit (nat (i - 1)) W \<and> 1 \<le> drop_bit (nat (i - 1)) H))"
proof (induction W H I rule: reduce_iterations.induct)
  case (1 W H I)
  let ?p = "(2::int) ^ nat (I - 1)"
  have shl: "c_shl1 (I - 1) = Some ?p"
    using 1(4,5) by (simp add: c_shl1_def)
  have dw: "W sdiv ?p = drop_bit (nat (I - 1)) W"
    using 1(2) by (simp add: sdiv_pos_eq_div drop_bit_eq_div)
  have dh: "H sdiv ?p = drop_bit (nat (I - 1)) H"
    using 1(3) by (simp add: sdiv_pos_eq_div drop_bit_eq_div)
  show ?case
  proof (cases "W sdiv ?p < 1 \<or> H sdiv ?p < 1")
    case True
    have "I \<noteq> 1"
    proof
      assume "I = 1"
      with True 1(2,3) show False by (simp add: sdiv_pos_eq_div)
    qed
    with 1(4) have I2: "1 \<le> I - 1" by simp
    from 1(5) have I31: "I - 1 \<le> 31" by simp
    from "1.IH" [OF shl True 1(2) 1(3) I2 I31]
    obtain r where r: "reduce_iterations W H (I - 1) = Some r" "1 \<le> r" "r \<le> I - 1"
      "1 \<le> drop_bit (nat (r - 1)) W" "1 \<le> drop_bit (nat (r - 1)) H"
      "\<forall>i. r < i \<and> i \<le> I - 1 \<longrightarrow>
          \<not> (1 \<le> drop_bit (nat (i - 1)) W \<and> 1 \<le> drop_bit (nat (i - 1)) H)"
      by blast
    have eq: "reduce_iterations W H I = Some r"
      using shl True r(1) by (subst reduce_iterations.simps) simp
    have top: "\<not> (1 \<le> drop_bit (nat (I - 1)) W \<and> 1 \<le> drop_bit (nat (I - 1)) H)"
      using True dw dh by auto
    have "\<forall>i. r < i \<and> i \<le> I \<longrightarrow>
        \<not> (1 \<le> drop_bit (nat (i - 1)) W \<and> 1 \<le> drop_bit (nat (i - 1)) H)"
    proof (intro allI impI)
      fix i assume i: "r < i \<and> i \<le> I"
      show "\<not> (1 \<le> drop_bit (nat (i - 1)) W \<and> 1 \<le> drop_bit (nat (i - 1)) H)"
      proof (cases "i = I")
        case True with top show ?thesis by simp
      next
        case False with i r(6) show ?thesis by auto
      qed
    qed
    with eq r show ?thesis by auto
  next
    case False
    have eq: "reduce_iterations W H I = Some I"
      using shl False by (subst reduce_iterations.simps) simp
    from False dw dh
    have "1 \<le> drop_bit (nat (I - 1)) W" "1 \<le> drop_bit (nat (I - 1)) H"
      by auto
    with eq 1(4) show ?thesis by auto
  qed
qed

lemma kawase_down_drawn:
  "kawase_down passes drv texs levels drawn = Returns (b, dr) \<Longrightarrow>
   \<exists>ran. dr = drawn @ map Down ran \<and> prefix ran levels \<and> (b \<longrightarrow> ran = levels)"
proof (induction levels arbitrary: drawn)
  case Nil
  then show ?case by simp
next
  case (Cons i levels)
  show ?case
  proof (cases "framebuffer_complete drv (Down i)")
    case True
    with Cons.prems
    have "kawase_down passes drv texs levels (drawn @ [Down i]) = Returns (b, dr)"
      by (simp split: if_splits)
    from Cons.IH [OF this] obtain ran where
      "dr = (drawn @ [Down i]) @ map Down ran" "prefix ran levels" "b \<longrightarrow> ran = levels"
      by blast
    then have "dr = drawn @ map Down (i # ran) \<and> prefix (i # ran) (i # levels)
        \<and> (b \<longrightarrow> i # ran = i # levels)" by simp
    then show ?thesis by blast
  next
    case False
    with Cons.prems have "dr = drawn \<and> \<not> b" by (simp split: if_splits)
    then have "dr = drawn @ map Down [] \<and> prefix [] (i # levels) \<and> (b \<longrightarrow> [] = i # levels)"
      by simp
    then show ?thesis by blast
  qed
qed

lemma kawase_up_drawn:
  "kawase_up passes drv hs hst texs levels gl drawn = Returns (b, gl1, dr) \<Longrightarrow>
   \<exists>ran. dr = drawn @ map Up ran \<and> prefix ran levels \<and> (b \<longrightarrow> ran = levels)"
proof (induction levels arbitrary: gl drawn)
  case Nil
  then show ?case by simp
next
  case (Cons i levels)
  show ?case
  proof (cases "i = 1 \<or> framebuffer_complete drv (Up i)")
    case True
    with Cons.prems obtain g where
      "kawase_up passes drv hs hst texs levels g (drawn @ [Up i]) = Returns (b, gl1, dr)"
      by (auto split: if_splits)
    from Cons.IH [OF this] obtain ran where
      "dr = (drawn @ [Up i]) @ map Up ran" "prefix ran levels" "b \<longrightarrow> ran = levels"
      by blast
    then have "dr = drawn @ map Up (i # ran) \<and> prefix (i # ran) (i # levels)
        \<and> (b \<longrightarrow> i # ran = i # levels)" by simp
    then show ?thesis by blast
  next
    case False
    with Cons.prems have "dr = drawn \<and> \<not> b" by (simp split: if_splits)
    then have "dr = drawn @ map Up [] \<and> prefix [] (i # levels) \<and> (b \<longrightarrow> [] = i # levels)"
      by simp
    then show ?thesis by blast
  qed
qed

lemma kawase_blur_body_drawn:
  assumes "kawase_blur_body passes drv t1 texs fb levels gl = Returns (ret, gl1, dr)"
  shows "prefix dr (map Down levels @ map Up (rev levels))
       \<and> (ret \<longrightarrow> dr = map Down levels @ map Up (rev levels))"
proof (cases "t1 = 0 \<or> list_ex (\<lambda>i. texs ! i = 0) levels \<or> fb = 0")
  case True
  with assms have "dr = [] \<and> \<not> ret" by (auto simp: kawase_blur_body_def split: if_splits)
  then show ?thesis by simp
next
  case False
  let ?g0 = "gl\<lparr>GL_STENCIL_TEST := False, GL_SCISSOR_TEST := False\<rparr>"
  from assms False obtain down_done drawn0 where
    d: "kawase_down passes drv texs levels [] = Returns (down_done, drawn0)"
    and u: "(if \<not> down_done then Returns (False, ?g0, drawn0)
             else kawase_up passes drv (GL_SCISSOR_TEST gl) (GL_STENCIL_TEST gl) texs (rev levels)
                    ?g0 drawn0)
            = Returns (ret, gl1, dr)"
    by (auto simp: kawase_blur_body_def c_bind_Returns split: if_splits)
  from kawase_down_drawn [OF d] obtain ran where
    ran: "drawn0 = map Down ran" "prefix ran levels" "down_done \<longrightarrow> ran = levels"
    by auto
  show ?thesis
  proof (cases down_done)
    case True
    with u have "kawase_up passes drv (GL_SCISSOR_TEST gl) (GL_STENCIL_TEST gl) texs (rev levels)
        ?g0 drawn0 = Returns (ret, gl1, dr)" by simp
    from kawase_up_drawn [OF this] obtain ran2 where
      r2: "dr = drawn0 @ map Up ran2" "prefix ran2 (rev levels)" "ret \<longrightarrow> ran2 = rev levels"
      by blast
    from True ran have d0: "drawn0 = map Down levels" by simp
    from r2(2) have "prefix (map Up ran2) (map Up (rev levels))" by (rule map_mono_prefix)
    with r2 d0 show ?thesis by simp
  next
    case False
    with u have "dr = drawn0" "\<not> ret" by simp_all
    moreover from ran(2) have "prefix (map Down ran) (map Down levels)" by (rule map_mono_prefix)
    ultimately show ?thesis using ran(1) by (simp add: prefix_prefix)
  qed
qed

text \<open>
  Claim C7 (as amended). For every rectangle of width \<open>W \<ge> 1\<close>, height \<open>H \<ge> 1\<close> and
  requested iteration count \<open>1 \<le> I \<le> 31\<close> (the counts for which the C shift
  \<open>1 << (I - 1)\<close> is defined), let \<open>r\<close> be the largest \<open>i \<le> I\<close> such that
  \<open>W >> (i - 1) \<ge> 1\<close> and \<open>H >> (i - 1) \<ge> 1\<close>. The reduction loop of
  \<open>glx_kawase_blur_dst\<close> terminates with \<open>r\<close>. When \<open>r \<ge> MAX_BLUR_PASS\<close> the function
  fails \<open>assert(iterations < MAX_BLUR_PASS)\<close> (provided the cache has a texture slot 0
  to read). Otherwise \<open>r\<close> is the effective iteration count the function uses: whenever
  it returns, \<open>r < MAX_BLUR_PASS\<close> and the passes it has rendered are an initial part of
  the down-sample passes of the levels \<open>1, \<dots>, r\<close> followed by the up-sample passes of the
  levels \<open>r, \<dots>, 1\<close>, and all of them when it returns success.
\<close>

theorem C7_kawase_effective_iterations:
  assumes W: "1 \<le> W" and H: "1 \<le> H" and I1: "1 \<le> I" and I31: "I \<le> 31"
  shows "\<exists>r. 1 \<le> r \<and> r \<le> I
     \<and> 1 \<le> drop_bit (nat (r - 1)) W \<and> 1 \<le> drop_bit (nat (r - 1)) H
     \<and> (\<forall>i. r < i \<and> i \<le> I \<longrightarrow>
           \<not> (1 \<le> drop_bit (nat (i - 1)) W \<and> 1 \<le> drop_bit (nat (i - 1)) H))
     \<and> reduce_iterations W H I = Some r
     \<and> (\<not> r < int MAX_BLUR_PASS
          \<and> 0 < length (textures (blur_cache_for free_glx_bc_resize MAX_BLUR_PASS pbc W H))
         \<longrightarrow> glx_kawase_blur_dst free_glx_bc_resize MAX_BLUR_PASS passes drv I W H pbc gl
               = Aborts)
     \<and> (\<forall>ret gl' pbc' drawn.
          glx_kawase_blur_dst free_glx_bc_resize MAX_BLUR_PASS passes drv I W H pbc gl
            = Returns (ret, gl', pbc', drawn)
          \<longrightarrow> r < int MAX_BLUR_PASS
              \<and> prefix drawn (map Down [1..<Suc (nat r)] @ map Up (rev [1..<Suc (nat r)]))
              \<and> (ret \<longrightarrow> drawn = map Down [1..<Suc (nat r)] @ map Up (rev [1..<Suc (nat r)])))"
proof -
  from reduce_iterations_largest [OF W H I1 I31]
  obtain r where r: "reduce_iterations W H I = Some r" "1 \<le> r" "r \<le> I"
      "1 \<le> drop_bit (nat (r - 1)) W" "1 \<le> drop_bit (nat (r - 1)) H"
      "\<forall>i. r < i \<and> i \<le> I \<longrightarrow>
          \<not> (1 \<le> drop_bit (nat (i - 1)) W \<and> 1 \<le> drop_bit (nat (i - 1)) H)"
    by blast
  have ab: "glx_kawase_blur_dst free_glx_bc_resize MAX_BLUR_PASS passes drv I W H pbc gl = Aborts"
    if "\<not> r < int MAX_BLUR_PASS"
       "0 < length (textures (blur_cache_for free_glx_bc_resize MAX_BLUR_PASS pbc W H))"
    using that r(1) by (simp add: glx_kawase_blur_dst_def Let_def)
  have ret: "r < int MAX_BLUR_PASS
        \<and> prefix drawn (map Down [1..<Suc (nat r)] @ map Up (rev [1..<Suc (nat r)]))
        \<and> (ret \<longrightarrow> drawn = map Down [1..<Suc (nat r)] @ map Up (rev [1..<Suc (nat r)]))"
    if run: "glx_kawase_blur_dst free_glx_bc_resize MAX_BLUR_PASS passes drv I W H pbc gl
         = Returns (ret, gl', pbc', drawn)" for ret gl' pbc' drawn
  proof -
    from run r(1) have lt: "r < int MAX_BLUR_PASS"
      by (auto simp: glx_kawase_blur_dst_def Let_def split: if_splits)
    from run r(1) lt obtain t1 texs fb gl1 where
      "kawase_blur_body passes drv t1 texs fb [1..<Suc (nat r)] gl = Returns (ret, gl1, drawn)"
      unfolding glx_kawase_blur_dst_def Let_def
      by (auto simp: c_bind_Returns split: if_splits)
    from kawase_blur_body_drawn [OF this] lt show ?thesis by simp
  qed
  from r ab ret show ?thesis by blast
qed

theorem C7_kawase_effective_iterations_witness:
  "glx_kawase_blur_dst id 8
        [\<lparr>frag_shader = 1, prog = 5, unifm_factor_center = 0, unifm_offset_x = 0,
          unifm_offset_y = 0, unifm_offset = 0, unifm_halfpixel = 0, unifm_fulltex = 0\<rparr>,
         \<lparr>frag_shader = 2, prog = 6, unifm_factor_center = 0, unifm_offset_x = 0,
          unifm_offset_y = 0, unifm_offset = 0, unifm_halfpixel = 0, unifm_fulltex = 0\<rparr>]
        \<lparr>glx_gen_texture = (\<lambda>i. 7 + i), gen_framebuffer = 9,
         framebuffer_complete = (\<lambda>s. True)\<rparr>
        31 100 37 None \<lparr>GL_SCISSOR_TEST = True, GL_STENCIL_TEST = False\<rparr>
      = Returns (True, \<lparr>GL_SCISSOR_TEST = True, GL_STENCIL_TEST = False\<rparr>, None,
          [Down 1, Down 2, Down 3, Down 4, Down 5, Down 6,
           Up 6, Up 5, Up 4, Up 3, Up 2, Up 1])
   \<and> (\<exists>r. reduce_iterations 100 37 31 = Some r \<and> 1 \<le> r \<and> r \<le> 31 \<and> r < 8
          \<and> [Down 1, Down 2, Down 3, Down 4, Down 5, Down 6,
              Up 6, Up 5, Up 4, Up 3, Up 2, Up 1]
             = map Down [1..<Suc (nat r)] @ map Up (rev [1..<Suc (nat r)]))"
proof -
  let ?passes = "[\<lparr>frag_shader = 1, prog = 5, unifm_factor_center = 0, unifm_offset_x = 0,
          unifm_offset_y = 0, unifm_offset = 0, unifm_halfpixel = 0, unifm_fulltex = 0\<rparr>,
         \<lparr>frag_shader = 2, prog = 6, unifm_factor_center = 0, unifm_offset_x = 0,
          unifm_offset_y = 0, unifm_offset = 0, unifm_halfpixel = 0, unifm_fulltex = 0\<rparr>]"
  let ?drv = "\<lparr>glx_gen_texture = (\<lambda>i. 7 + i), gen_framebuffer = 9,
         framebuffer_complete = (\<lambda>s. True)\<rparr>"
  let ?gl = "\<lparr>GL_SCISSOR_TEST = True, GL_STENCIL_TEST = False\<rparr>"
  let ?D = "[Down 1, Down 2, Down 3, Down 4, Down 5, Down 6,
             Up 6, Up 5, Up 4, Up 3, Up 2, Up 1]"
  have h: "1 \<le> (100::int)" "1 \<le> (37::int)" "1 \<le> (31::int)" "(31::int) \<le> 31" by simp_all
  from C7_kawase_effective_iterations [OF h, of 8 id None ?passes ?drv ?gl]
  obtain r where r: "1 \<le> r" "r \<le> 31" "reduce_iterations 100 37 31 = Some r"
    and cl: "\<forall>ret gl' pbc' drawn.
        glx_kawase_blur_dst id 8 ?passes ?drv 31 100 37 None ?gl = Returns (ret, gl', pbc', drawn)
        \<longrightarrow> r < int 8
            \<and> prefix drawn (map Down [1..<Suc (nat r)] @ map Up (rev [1..<Suc (nat r)]))
            \<and> (ret \<longrightarrow> drawn = map Down [1..<Suc (nat r)] @ map Up (rev [1..<Suc (nat r)]))"
    by blast
  have run: "glx_kawase_blur_dst id 8 ?passes ?drv 31 100 37 None ?gl
      = Returns (True, ?gl, None, ?D)"
    by code_simp
  from cl run have "r < int 8 \<and> ?D = map Down [1..<Suc (nat r)] @ map Up (rev [1..<Suc (nat r)])"
    by blast
  with r run show ?thesis by auto
qed

text \<open>
  The claim as stated, for every \<open>I \<ge> 1\<close> and with no condition on \<open>MAX_BLUR_PASS\<close>,
  fails. With \<open>I = 33\<close> the loop condition evaluates \<open>1 << 32\<close>, which C leaves
  undefined, so no iteration count is determined. With \<open>I = 31\<close> on a 100 by 37
  rectangle the loop ends at 6, and with \<open>MAX_BLUR_PASS = 6\<close> the function stops at the
  failed assertion instead of using that count.
\<close>

theorem C7_counterexample:
  "glx_kawase_blur_dst id 3
        [\<lparr>frag_shader = 1, prog = 5, unifm_factor_center = 0, unifm_offset_x = 0,
          unifm_offset_y = 0, unifm_offset = 0, unifm_halfpixel = 0, unifm_fulltex = 0\<rparr>,
         \<lparr>frag_shader = 2, prog = 6, unifm_factor_center = 0, unifm_offset_x = 0,
          unifm_offset_y = 0, unifm_offset = 0, unifm_halfpixel = 0, unifm_fulltex = 0\<rparr>]
        \<lparr>glx_gen_texture = (\<lambda>i. 7 + i), gen_framebuffer = 9,
         framebuffer_complete = (\<lambda>s. True)\<rparr>
        33 1 1 None \<lparr>GL_SCISSOR_TEST = True, GL_STENCIL_TEST = False\<rparr>
      = Undefined
   \<and> glx_kawase_blur_dst id 6
        [\<lparr>frag_shader = 1, prog = 5, unifm_factor_center = 0, unifm_offset_x = 0,
          unifm_offset_y = 0, unifm_offset = 0, unifm_halfpixel = 0, unifm_fulltex = 0\<rparr>,
         \<lparr>frag_shader = 2, prog = 6, unifm_factor_center = 0, unifm_offset_x = 0,
          unifm_offset_y = 0, unifm_offset = 0, unifm_halfpixel = 0, unifm_fulltex = 0\<rparr>]
        \<lparr>glx_gen_texture = (\<lambda>i. 7 + i), gen_framebuffer = 9,
         framebuffer_complete = (\<lambda>s. True)\<rparr>
        31 100 37 None \<lparr>GL_SCISSOR_TEST = True, GL_STENCIL_TEST = False\<rparr>
      = Aborts"
  by code_simp

subsection \<open>Binding a pixmap\<close>

lemma bind_create_glpixmap_Inl:
  "bind_create_glpixmap ps env ptex pm w h d calls = Inl (r, p, c) \<Longrightarrow>
   r \<noteq> Returns True \<and> p = Some ptex \<and> c = calls"
  by (auto simp: bind_create_glpixmap_def Let_def
        split: if_splits prod.splits sum.splits option.splits)

lemma glx_release_pixmap_handles:
  "glx_release_pixmap t c = (t', c') \<Longrightarrow> texture t' = texture t \<and> glpixmap t' = 0"
  by (auto simp: glx_release_pixmap_def Let_def split: if_splits)

lemma bind_create_texture_True:
  "bind_create_texture env ptex nr calls = (Returns True, p, c) \<Longrightarrow>
   \<exists>t. p = Some t \<and> texture t \<noteq> 0 \<and> glpixmap t = glpixmap ptex"
  by (auto simp: bind_create_texture_def Let_def split: if_splits prod.splits)

lemma bind_success_full:
  "backend ps = BKEND_GLX \<or> backend ps = BKEND_XR_GLX_HYBRID \<Longrightarrow>
   glx_bind_pixmap ps env pptex pm w h d calls = (Returns True, pptex', calls') \<Longrightarrow>
   binding_full pptex'"
  by (auto simp: glx_bind_pixmap_def binding_full_def Let_def
        split: if_splits prod.splits sum.splits
        dest!: bind_create_glpixmap_Inl bind_create_texture_True)

lemma bind_create_glpixmap_Inl_same:
  "bind_create_glpixmap ps env ptex pm w h d calls = Inl (r, p, c) \<Longrightarrow>
   p = Some ptex \<and> c = calls"
  by (auto simp: bind_create_glpixmap_def Let_def
        split: if_splits prod.splits sum.splits option.splits)

lemma bind_create_glpixmap_Inr_created:
  "bind_create_glpixmap ps env ptex pm w h d calls = Inr (t, c) \<Longrightarrow>
   \<exists>cf a. c = calls @ [GlXCreatePixmap cf pm a] \<and> glpixmap t = glXCreatePixmap env cf pm a
     \<and> texture t = texture ptex"
  by (auto simp: bind_create_glpixmap_def Let_def
        split: if_splits prod.splits sum.splits option.splits)

lemma bind_create_texture_False_calls:
  "bind_create_texture env ptex nr calls = (Returns False, p, c) \<Longrightarrow>
   texture ptex = 0 \<and> glGenTextures env = 0 \<and> p = Some (ptex\<lparr>texture := 0\<rparr>)
   \<and> c = calls @ [GlEnable (target ptex), GlGenTextures 0, GlBindTexture (target ptex) 0,
                  GlTexParameters (target ptex), GlBindTexture (target ptex) 0]"
  by (auto simp: bind_create_texture_def Let_def split: if_splits prod.splits)

lemma bind_after_mismatch_run:
  assumes be: "backend ps = BKEND_GLX \<or> backend ps = BKEND_XR_GLX_HYBRID"
    and pm: "pm \<noteq> 0"
    and am: "bind_after_mismatch pptex pm calls = (t1, c1)"
    and run: "glx_bind_pixmap ps env pptex pm w h d calls = (Returns False, pptex', calls')"
  shows "(case (if glpixmap t1 = 0 then bind_create_glpixmap ps env t1 pm w h d c1
                else Inr (t1, c1)) of
            Inl out \<Rightarrow> out
          | Inr (ptex2, calls2) \<Rightarrow>
              if glpixmap ptex2 = 0 then (Returns False, Some ptex2, calls2)
              else bind_create_texture env ptex2 (glpixmap t1 \<noteq> 0) calls2)
         = (Returns False, pptex', calls')"
  using be pm am run
  by (simp add: glx_bind_pixmap_def bind_after_mismatch_def Let_def split: if_splits prod.splits)

lemma bind_failure_no_release:
  assumes be: "backend ps = BKEND_GLX \<or> backend ps = BKEND_XR_GLX_HYBRID"
    and pm: "pm \<noteq> 0"
    and am: "bind_after_mismatch pptex pm calls = (t1, c1)"
    and run: "glx_bind_pixmap ps env pptex pm w h d calls = (Returns False, pptex', calls')"
  shows "\<exists>t' extra. pptex' = Some t' \<and> calls' = c1 @ extra
           \<and> \<not> list_ex is_release_call extra
           \<and> texture t' = texture t1
           \<and> (glpixmap t1 \<noteq> 0 \<longrightarrow> glpixmap t' = glpixmap t1)
           \<and> (\<forall>c a. GlXCreatePixmap c pm a \<in> set extra
                 \<longrightarrow> glpixmap t' = glXCreatePixmap env c pm a)
           \<and> (glpixmap t' \<noteq> 0 \<longrightarrow> texture t' = 0 \<and> glGenTextures env = 0)"
proof (cases "glpixmap t1 = 0")
  case True
  note gp = this
  show ?thesis
  proof (cases "bind_create_glpixmap ps env t1 pm w h d c1")
    case (Inl out)
    obtain r p c where out: "out = (r, p, c)" by (cases out)
    from bind_create_glpixmap_Inl_same [OF Inl [unfolded out]]
    have pc: "p = Some t1" "c = c1" by auto
    from bind_after_mismatch_run [OF be pm am run] gp Inl out pc
    have "pptex' = Some t1" "calls' = c1" by auto
    with gp show ?thesis by simp
  next
    case (Inr tc)
    obtain t2 c2 where tc: "tc = (t2, c2)" by (cases tc)
    from bind_create_glpixmap_Inr_created [OF Inr [unfolded tc]]
    obtain cf a where c2: "c2 = c1 @ [GlXCreatePixmap cf pm a]"
      and g2: "glpixmap t2 = glXCreatePixmap env cf pm a" and x2: "texture t2 = texture t1"
      by blast
    show ?thesis
    proof (cases "glpixmap t2 = 0")
      case True
      with bind_after_mismatch_run [OF be pm am run] gp Inr tc
      have "pptex' = Some t2" "calls' = c2" by auto
      with True c2 g2 x2 gp show ?thesis by auto
    next
      case False
      with bind_after_mismatch_run [OF be pm am run] gp Inr tc
      have "bind_create_texture env t2 False c2 = (Returns False, pptex', calls')" by auto
      from bind_create_texture_False_calls [OF this] c2 g2 x2 gp False
      show ?thesis by auto
    qed
  qed
next
  case False
  with bind_after_mismatch_run [OF be pm am run]
  have "bind_create_texture env t1 True c1 = (Returns False, pptex', calls')" by auto
  from bind_create_texture_False_calls [OF this] False
  show ?thesis by auto
qed

text \<open>
  Claim C4 (as amended). Under a GLX backend, a call of \<open>glx_bind_pixmap\<close> that returns
  success leaves both the GLX-pixmap handle and the texture handle present. A call that
  returns failure does not run the release path. With pixmap id 0 it leaves the binding
  and the GL state untouched. With another pixmap id, and \<open>t1\<close>, \<open>c1\<close> the binding and
  the calls made once a pixmap that does not match has been released at the start: the
  call makes no further \<open>glXReleaseTexImageEXT\<close> or \<open>glXDestroyPixmap\<close> call, leaves
  the texture handle as it was, keeps a GLX pixmap that it found, and keeps a GLX pixmap
  that it created; a failure that leaves a GLX pixmap is a failure to allocate the
  texture, and leaves that GLX pixmap without a texture. So both handles are absent after
  a failure exactly when no GLX pixmap is left and the binding had no texture on entry,
  and only then does the binding satisfy the invariant "both absent or both present".
\<close>

theorem C4_bind_pixmap_handles:
  assumes be: "backend ps = BKEND_GLX \<or> backend ps = BKEND_XR_GLX_HYBRID"
    and run: "glx_bind_pixmap ps env pptex pm w h d calls = (r, pptex', calls')"
    and am: "bind_after_mismatch pptex pm calls = (t1, c1)"
  shows "(r = Returns True \<longrightarrow> binding_full pptex')
       \<and> (r = Returns False \<and> pm = 0 \<longrightarrow> pptex' = pptex \<and> calls' = calls)
       \<and> (r = Returns False \<and> pm \<noteq> 0 \<longrightarrow>
            (\<exists>t' extra. pptex' = Some t' \<and> calls' = c1 @ extra
               \<and> \<not> list_ex is_release_call extra
               \<and> texture t' = texture t1
               \<and> (glpixmap t1 \<noteq> 0 \<longrightarrow> glpixmap t' = glpixmap t1)
               \<and> (\<forall>c a. GlXCreatePixmap c pm a \<in> set extra
                     \<longrightarrow> glpixmap t' = glXCreatePixmap env c pm a)
               \<and> (glpixmap t' \<noteq> 0 \<longrightarrow> texture t' = 0 \<and> glGenTextures env = 0)
               \<and> (binding_empty pptex' \<longleftrightarrow> glpixmap t' = 0 \<and> texture t1 = 0)
               \<and> (binding_consistent pptex' \<longleftrightarrow> binding_empty pptex')))"
proof (intro conjI impI)
  assume "r = Returns True"
  with be run show "binding_full pptex'" by (auto intro: bind_success_full)
next
  assume "r = Returns False \<and> pm = 0"
  with be run show "pptex' = pptex" "calls' = calls"
    by (auto simp: glx_bind_pixmap_def)
next
  assume a: "r = Returns False \<and> pm \<noteq> 0"
  with run have run': "glx_bind_pixmap ps env pptex pm w h d calls = (Returns False, pptex', calls')"
    by simp
  from a have pm: "pm \<noteq> 0" by simp
  from bind_failure_no_release [OF be pm am run']
  obtain t' extra where f: "pptex' = Some t'" "calls' = c1 @ extra"
      "\<not> list_ex is_release_call extra" "texture t' = texture t1"
      "glpixmap t1 \<noteq> 0 \<longrightarrow> glpixmap t' = glpixmap t1"
      "\<forall>c a. GlXCreatePixmap c pm a \<in> set extra
          \<longrightarrow> glpixmap t' = glXCreatePixmap env c pm a"
      "glpixmap t' \<noteq> 0 \<longrightarrow> texture t' = 0 \<and> glGenTextures env = 0"
    by blast
  from f(1,4) have e: "binding_empty pptex' \<longleftrightarrow> glpixmap t' = 0 \<and> texture t1 = 0"
    by (simp add: binding_empty_def)
  from f(1,7) have c: "binding_consistent pptex' \<longleftrightarrow> binding_empty pptex'"
    by (auto simp: binding_consistent_def binding_empty_def)
  from f e c
  show "\<exists>t' extra. pptex' = Some t' \<and> calls' = c1 @ extra
               \<and> \<not> list_ex is_release_call extra
               \<and> texture t' = texture t1
               \<and> (glpixmap t1 \<noteq> 0 \<longrightarrow> glpixmap t' = glpixmap t1)
               \<and> (\<forall>c a. GlXCreatePixmap c pm a \<in> set extra
                     \<longrightarrow> glpixmap t' = glXCreatePixmap env c pm a)
               \<and> (glpixmap t' \<noteq> 0 \<longrightarrow> texture t' = 0 \<and> glGenTextures env = 0)
               \<and> (binding_empty pptex' \<longleftrightarrow> glpixmap t' = 0 \<and> texture t1 = 0)
               \<and> (binding_consistent pptex' \<longleftrightarrow> binding_empty pptex')"
    by blast
qed

theorem C4_bind_pixmap_handles_witness:
  "binding_full (Some \<lparr>texture = 3, glpixmap = 7, pixmap = 1, target = GL_TEXTURE_2D,
       width = 1, height = 1, depth = 1, y_inverted = True\<rparr>)
   \<and> \<not> list_ex is_release_call
         [GlXCreatePixmap 9 1 [GLX_TEXTURE_FORMAT_EXT, GLX_TEXTURE_FORMAT_RGB_EXT,
                                GLX_TEXTURE_TARGET_EXT, GLX_TEXTURE_2D_EXT, 0],
          GlEnable GL_TEXTURE_2D, GlGenTextures 0, GlBindTexture GL_TEXTURE_2D 0,
          GlTexParameters GL_TEXTURE_2D, GlBindTexture GL_TEXTURE_2D 0]
   \<and> \<not> binding_consistent
         (Some \<lparr>texture = 0, glpixmap = 7, pixmap = 1, target = GL_TEXTURE_2D,
                width = 1, height = 1, depth = 1, y_inverted = True\<rparr>)
   \<and> \<not> binding_consistent (Some (GLX_TEX_DEF\<lparr>texture := 5, glpixmap := 0, pixmap := 1\<rparr>))
   \<and> binding_consistent (Some GLX_TEX_DEF)"
proof -
  let ?ps = "\<lparr>backend = BKEND_GLX,
       fbconfigs = [None, Some \<lparr>cfg = 9, texture_fmt = GLX_TEXTURE_FORMAT_RGB_EXT,
                                 texture_tgts = 2, fbc_y_inverted = True\<rparr>],
       has_texture_non_power_of_two = True\<rparr>"
  let ?env = "\<lparr>XGetGeometry = (\<lambda>p. None), glXCreatePixmap = (\<lambda>c p a. 7),
       glGenTextures = 3, malloc_ok = True\<rparr>"
  let ?envz = "\<lparr>XGetGeometry = (\<lambda>p. None), glXCreatePixmap = (\<lambda>c p a. 7),
       glGenTextures = 0, malloc_ok = True\<rparr>"
  let ?t = "\<lparr>texture = 3, glpixmap = 7, pixmap = 1, target = GL_TEXTURE_2D,
       width = 1, height = 1, depth = 1, y_inverted = True\<rparr>"
  let ?tz = "\<lparr>texture = 0, glpixmap = 7, pixmap = 1, target = GL_TEXTURE_2D,
       width = 1, height = 1, depth = 1, y_inverted = True\<rparr>"
  let ?old = "Some (GLX_TEX_DEF\<lparr>texture := 5, glpixmap := 6, pixmap := 1\<rparr>)"
  let ?rel = "[GlBindTexture 0 5, GlXReleaseTexImage 6, GlBindTexture 0 0, GlXDestroyPixmap 6]"
  have be: "backend ?ps = BKEND_GLX \<or> backend ?ps = BKEND_XR_GLX_HYBRID" by simp
  have ok: "glx_bind_pixmap ?ps ?env None 1 1 1 1 [] =
      (Returns True, Some ?t,
       [GlXCreatePixmap 9 1 [GLX_TEXTURE_FORMAT_EXT, GLX_TEXTURE_FORMAT_RGB_EXT,
                              GLX_TEXTURE_TARGET_EXT, GLX_TEXTURE_2D_EXT, 0],
        GlEnable GL_TEXTURE_2D, GlGenTextures 3, GlBindTexture GL_TEXTURE_2D 3,
        GlTexParameters GL_TEXTURE_2D, GlBindTexture GL_TEXTURE_2D 0,
        GlBindTexture GL_TEXTURE_2D 3, GlXBindTexImage 7,
        GlBindTexture GL_TEXTURE_2D 0, GlDisable GL_TEXTURE_2D])"
    by (simp add: glx_bind_pixmap_def bind_create_glpixmap_def bind_create_texture_def
          bind_tex_tgt_def GLX_TEX_DEF_def GLX_TEXTURE_2D_BIT_EXT_def Let_def)
  have notex: "glx_bind_pixmap ?ps ?envz None 1 1 1 1 [] =
      (Returns False, Some ?tz,
       [GlXCreatePixmap 9 1 [GLX_TEXTURE_FORMAT_EXT, GLX_TEXTURE_FORMAT_RGB_EXT,
                              GLX_TEXTURE_TARGET_EXT, GLX_TEXTURE_2D_EXT, 0],
        GlEnable GL_TEXTURE_2D, GlGenTextures 0, GlBindTexture GL_TEXTURE_2D 0,
        GlTexParameters GL_TEXTURE_2D, GlBindTexture GL_TEXTURE_2D 0])"
    by (simp add: glx_bind_pixmap_def bind_create_glpixmap_def bind_create_texture_def
          bind_tex_tgt_def GLX_TEX_DEF_def GLX_TEXTURE_2D_BIT_EXT_def Let_def)
  have noquery: "glx_bind_pixmap ?ps ?env ?old 2 0 0 0 [] =
      (Returns False, Some (GLX_TEX_DEF\<lparr>texture := 5, glpixmap := 0, pixmap := 1\<rparr>), ?rel)"
    by (simp add: glx_bind_pixmap_def bind_create_glpixmap_def glx_release_pixmap_def
          GLX_TEX_DEF_def Let_def)
  have am: "bind_after_mismatch None 1 [] = (GLX_TEX_DEF, [])"
    by (simp add: bind_after_mismatch_def GLX_TEX_DEF_def)
  have am2: "bind_after_mismatch ?old 2 [] =
      (GLX_TEX_DEF\<lparr>texture := 5, glpixmap := 0, pixmap := 1\<rparr>, ?rel)"
    by (simp add: bind_after_mismatch_def glx_release_pixmap_def GLX_TEX_DEF_def)
  have noquery_new: "glx_bind_pixmap ?ps ?env None 1 0 0 0 [] =
      (Returns False, Some GLX_TEX_DEF, [])"
    by (simp add: glx_bind_pixmap_def bind_create_glpixmap_def Let_def GLX_TEX_DEF_def)
  have full: "binding_full (Some ?t)"
    using C4_bind_pixmap_handles [OF be ok am] by simp
  have kept: "\<not> list_ex is_release_call
         [GlXCreatePixmap 9 1 [GLX_TEXTURE_FORMAT_EXT, GLX_TEXTURE_FORMAT_RGB_EXT,
                                GLX_TEXTURE_TARGET_EXT, GLX_TEXTURE_2D_EXT, 0],
          GlEnable GL_TEXTURE_2D, GlGenTextures 0, GlBindTexture GL_TEXTURE_2D 0,
          GlTexParameters GL_TEXTURE_2D, GlBindTexture GL_TEXTURE_2D 0]
      \<and> \<not> binding_consistent (Some ?tz)"
    using C4_bind_pixmap_handles [OF be notex am] by auto
  have stays: "\<not> binding_consistent
      (Some (GLX_TEX_DEF\<lparr>texture := 5, glpixmap := 0, pixmap := 1\<rparr>))"
    using C4_bind_pixmap_handles [OF be noquery am2] by (auto simp: GLX_TEX_DEF_def)
  have none: "binding_consistent (Some GLX_TEX_DEF)"
    using C4_bind_pixmap_handles [OF be noquery_new am] by (auto simp: GLX_TEX_DEF_def)
  from full kept stays none show ?thesis by blast
qed

text \<open>
  The claim as stated fails: no failure path of \<open>glx_bind_pixmap\<close> calls
  \<open>glx_release_pixmap\<close>. When the GLX pixmap is created (handle 7) and no texture name is
  obtained, the call returns failure with the GLX pixmap present and the texture absent.
\<close>

theorem C4_counterexample:
  "glx_bind_pixmap
     \<lparr>backend = BKEND_GLX,
      fbconfigs = [None, Some \<lparr>cfg = 9, texture_fmt = GLX_TEXTURE_FORMAT_RGB_EXT,
                                texture_tgts = 2, fbc_y_inverted = True\<rparr>],
      has_texture_non_power_of_two = True\<rparr>
     \<lparr>XGetGeometry = (\<lambda>p. None), glXCreatePixmap = (\<lambda>c p a. 7),
      glGenTextures = 0, malloc_ok = True\<rparr>
     None 1 1 1 1 []
   = (Returns False,
      Some \<lparr>texture = 0, glpixmap = 7, pixmap = 1, target = GL_TEXTURE_2D,
            width = 1, height = 1, depth = 1, y_inverted = True\<rparr>,
      [GlXCreatePixmap 9 1 [GLX_TEXTURE_FORMAT_EXT, GLX_TEXTURE_FORMAT_RGB_EXT,
                             GLX_TEXTURE_TARGET_EXT, GLX_TEXTURE_2D_EXT, 0],
       GlEnable GL_TEXTURE_2D, GlGenTextures 0, GlBindTexture GL_TEXTURE_2D 0,
       GlTexParameters GL_TEXTURE_2D, GlBindTexture GL_TEXTURE_2D 0])
   \<and> \<not> binding_consistent (Some \<lparr>texture = 0, glpixmap = 7, pixmap = 1,
            target = GL_TEXTURE_2D, width = 1, height = 1, depth = 1, y_inverted = True\<rparr>)"
  by (simp add: glx_bind_pixmap_def bind_create_glpixmap_def bind_create_texture_def
        bind_tex_tgt_def GLX_TEX_DEF_def GLX_TEXTURE_2D_BIT_EXT_def Let_def
        binding_consistent_def)

text \<open>
  The other way the invariant is lost: a binding of pixmap 1 (texture 5, GLX pixmap 6) is
  asked to bind pixmap 2, the old GLX pixmap is released, and the geometry query fails.
\<close>

lemma bind_mismatch_then_query_failure:
  "glx_bind_pixmap
     \<lparr>backend = BKEND_GLX, fbconfigs = [], has_texture_non_power_of_two = True\<rparr>
     \<lparr>XGetGeometry = (\<lambda>p. None), glXCreatePixmap = (\<lambda>c p a. 7),
      glGenTextures = 3, malloc_ok = True\<rparr>
     (Some (GLX_TEX_DEF\<lparr>texture := 5, glpixmap := 6, pixmap := 1\<rparr>)) 2 0 0 0 []
   = (Returns False, Some (GLX_TEX_DEF\<lparr>texture := 5, glpixmap := 0, pixmap := 1\<rparr>),
      [GlBindTexture 0 5, GlXReleaseTexImage 6, GlBindTexture 0 0, GlXDestroyPixmap 6])"
  by (simp add: glx_bind_pixmap_def bind_create_glpixmap_def glx_release_pixmap_def
        GLX_TEX_DEF_def Let_def)

lemma bind_create_glpixmap_query_too_deep:
  "w = 0 \<or> h = 0 \<or> d = 0 \<Longrightarrow> XGetGeometry env pm = Some (qw, qh, qd) \<Longrightarrow>
   qd > OPENGL_MAX_DEPTH \<Longrightarrow>
   bind_create_glpixmap ps env ptex pm w h d calls = Inl (Returns False, Some ptex, calls)"
  by (auto simp: bind_create_glpixmap_def)

text \<open>
  The depth check that the code does make: when a GLX pixmap has to be created and the
  geometry is queried, a queried depth above \<open>OPENGL_MAX_DEPTH\<close> returns failure.
\<close>

lemma bind_queried_depth_too_high:
  assumes be: "backend ps = BKEND_GLX \<or> backend ps = BKEND_XR_GLX_HYBRID"
    and pm: "pm \<noteq> 0"
    and al: "pptex = None \<longrightarrow> malloc_ok env"
    and nogp: "case pptex of None \<Rightarrow> True
               | Some t \<Rightarrow> glpixmap t = 0 \<or> (texture t \<noteq> 0 \<and> pixmap t \<noteq> pm)"
    and om: "w = 0 \<or> h = 0 \<or> d = 0"
    and q: "XGetGeometry env pm = Some (qw, qh, qd)"
    and deep: "qd > OPENGL_MAX_DEPTH"
  shows "fst (glx_bind_pixmap ps env pptex pm w h d calls) = Returns False"
proof -
  have step: "bind_create_glpixmap ps env t pm w h d c = Inl (Returns False, Some t, c)" for t c
    by (rule bind_create_glpixmap_query_too_deep [OF om q deep])
  show ?thesis
  proof (cases pptex)
    case None
    with be pm al show ?thesis
      by (auto simp: glx_bind_pixmap_def GLX_TEX_DEF_def step)
  next
    case (Some t)
    show ?thesis
    proof (cases "texture t \<noteq> 0 \<and> pixmap t \<noteq> pm")
      case True
      obtain t' c' where rel: "glx_release_pixmap t calls = (t', c')"
        by (cases "glx_release_pixmap t calls")
      then have "glpixmap t' = 0"
        by (simp add: glx_release_pixmap_handles)
      with be pm Some True rel show ?thesis
        by (auto simp: glx_bind_pixmap_def step)
    next
      case False
      with nogp Some have "glpixmap t = 0" by auto
      with be pm Some False show ?thesis
        by (auto simp: glx_bind_pixmap_def step)
    qed
  qed
qed

text \<open>
  Claim C5. A call with a requested depth above \<open>OPENGL_MAX_DEPTH\<close> should return
  failure also when the caller supplies the depth. The code does not: with width, height
  and depth all given, the depth is never compared with \<open>OPENGL_MAX_DEPTH\<close>; for depth 33
  the call reads \<open>fbconfigs[33]\<close>, one slot past the 33-slot array, instead of returning
  failure.
\<close>

theorem C5_explicit_depth_unchecked:
  "glx_bind_pixmap
     \<lparr>backend = BKEND_GLX, fbconfigs = replicate (OPENGL_MAX_DEPTH + 1) None,
      has_texture_non_power_of_two = True\<rparr>
     \<lparr>XGetGeometry = (\<lambda>p. Some (1, 1, 24)), glXCreatePixmap = (\<lambda>c p a. 7),
      glGenTextures = 3, malloc_ok = True\<rparr>
     None 1 1 1 33 []
   = (Undefined, Some GLX_TEX_DEF, [])"
  by (simp add: glx_bind_pixmap_def bind_create_glpixmap_def GLX_TEX_DEF_def Let_def
        OPENGL_MAX_DEPTH_def)

text \<open>
  A binding that already holds the GLX pixmap of the same pixmap is only rebound: the
  geometry arguments, the depth among them, are not looked at.
\<close>

lemma bind_existing_ignores_depth:
  "glx_bind_pixmap
     \<lparr>backend = BKEND_GLX, fbconfigs = replicate (OPENGL_MAX_DEPTH + 1) None,
      has_texture_non_power_of_two = True\<rparr>
     \<lparr>XGetGeometry = (\<lambda>p. None), glXCreatePixmap = (\<lambda>c p a. 7),
      glGenTextures = 3, malloc_ok = True\<rparr>
     (Some (GLX_TEX_DEF\<lparr>texture := 5, glpixmap := 6, pixmap := 1\<rparr>)) 1 1 1 33 []
   = (Returns True, Some (GLX_TEX_DEF\<lparr>texture := 5, glpixmap := 6, pixmap := 1\<rparr>),
      [GlEnable 0, GlBindTexture 0 5, GlXReleaseTexImage 6, GlXBindTexImage 6,
       GlBindTexture 0 0, GlDisable 0])"
  by (simp add: glx_bind_pixmap_def bind_create_texture_def GLX_TEX_DEF_def Let_def)

text \<open>
  Claim C10. When the configured backend is neither GLX nor the XRender-GLX hybrid,
  \<open>glx_bind_pixmap\<close> returns success at once: the binding is the one passed in and no GL
  or GLX call is made. Under a GLX backend, a call with pixmap id 0 returns failure, again
  with the binding and the GL state untouched.
\<close>

theorem C10_bind_pixmap_early_returns:
  "(backend ps \<noteq> BKEND_GLX \<and> backend ps \<noteq> BKEND_XR_GLX_HYBRID \<longrightarrow>
      glx_bind_pixmap ps env pptex pm w h d calls = (Returns True, pptex, calls)) \<and>
   (backend ps = BKEND_GLX \<or> backend ps = BKEND_XR_GLX_HYBRID \<longrightarrow>
      glx_bind_pixmap ps env pptex 0 w h d calls = (Returns False, pptex, calls))"
  by (auto simp: glx_bind_pixmap_def)

theorem C10_bind_pixmap_early_returns_witness:
  "glx_bind_pixmap
     \<lparr>backend = BKEND_XRENDER, fbconfigs = [], has_texture_non_power_of_two = False\<rparr>
     \<lparr>XGetGeometry = (\<lambda>p. None), glXCreatePixmap = (\<lambda>c p a. 7),
      glGenTextures = 3, malloc_ok = True\<rparr>
     (Some (GLX_TEX_DEF\<lparr>texture := 5, glpixmap := 6, pixmap := 1\<rparr>)) 2 1 1 24 [GlEnable 0]
   = (Returns True, Some (GLX_TEX_DEF\<lparr>texture := 5, glpixmap := 6, pixmap := 1\<rparr>), [GlEnable 0])
   \<and>
   glx_bind_pixmap
     \<lparr>backend = BKEND_GLX, fbconfigs = [], has_texture_non_power_of_two = False\<rparr>
     \<lparr>XGetGeometry = (\<lambda>p. None), glXCreatePixmap = (\<lambda>c p a. 7),
      glGenTextures = 3, malloc_ok = True\<rparr>
     (Some (GLX_TEX_DEF\<lparr>texture := 5, glpixmap := 6, pixmap := 1\<rparr>)) 0 1 1 24 [GlEnable 0]
   = (Returns False, Some (GLX_TEX_DEF\<lparr>texture := 5, glpixmap := 6, pixmap := 1\<rparr>), [GlEnable 0])"
  using
    C10_bind_pixmap_early_returns [of
      "\<lparr>backend = BKEND_XRENDER, fbconfigs = [], has_texture_non_power_of_two = False\<rparr>"
      "\<lparr>XGetGeometry = (\<lambda>p. None), glXCreatePixmap = (\<lambda>c p a. 7),
        glGenTextures = 3, malloc_ok = True\<rparr>"
      "Some (GLX_TEX_DEF\<lparr>texture := 5, glpixmap := 6, pixmap := 1\<rparr>)" 2 1 1 24 "[GlEnable 0]"]
    C10_bind_pixmap_early_returns [of
      "\<lparr>backend = BKEND_GLX, fbconfigs = [], has_texture_non_power_of_two = False\<rparr>"
      "\<lparr>XGetGeometry = (\<lambda>p. None), glXCreatePixmap = (\<lambda>c p a. 7),
        glGenTextures = 3, malloc_ok = True\<rparr>"
      "Some (GLX_TEX_DEF\<lparr>texture := 5, glpixmap := 6, pixmap := 1\<rparr>)" 2 1 1 24 "[GlEnable 0]"]
  by simp

subsection \<open>Paint region from the buffer age\<close>

lemma union_damage_drop:
  "0 \<le> i \<Longrightarrow> i \<le> n \<Longrightarrow> nat n \<le> length hist \<Longrightarrow>
   union_damage hist n i preg = Some (preg \<union> \<Union> (set (drop (nat i) (take (nat n) hist))))"
proof (induction hist n i preg rule: union_damage.induct)
  case (1 hist n i preg)
  show ?case
  proof (cases "i < n")
    case True
    with 1(2,4) have inr: "0 \<le> i \<and> nat i < length hist" by auto
    have ih: "union_damage hist n (i + 1) (preg \<union> hist ! nat i) =
        Some ((preg \<union> hist ! nat i) \<union> \<Union> (set (drop (nat (i + 1)) (take (nat n) hist))))"
      using "1.IH" [OF True inr] 1(2,4) True by simp
    have lt: "nat i < length (take (nat n) hist)" using True inr 1(4) by auto
    have "drop (nat i) (take (nat n) hist) = hist ! nat i # drop (nat (i + 1)) (take (nat n) hist)"
      using Cons_nth_drop_Suc [OF lt] 1(2) lt by (simp add: nat_add_distrib)
    then show ?thesis
      using True inr ih by (subst union_damage.simps) auto
  next
    case False
    with 1(3) have "i = n" by simp
    then show ?thesis by (subst union_damage.simps) simp
  qed
qed

lemma uint_lt_of_unat: "unat (val::32 word) < 2 ^ 31 \<Longrightarrow> uint val < 2 ^ 31"
  by (metis of_nat_numeral of_nat_power of_nat_less_iff uint_nat)

lemma uint_ge_of_unat: "2 ^ 31 \<le> unat (val::32 word) \<Longrightarrow> 2 ^ 31 \<le> uint val"
  by (metis of_nat_numeral of_nat_power of_nat_le_iff uint_nat)

lemma int_unat: "int (unat (val::32 word)) = uint val"
  by (metis uint_nat)

lemma sint_of_small:
  "unat (val::32 word) < 2 ^ 31 \<Longrightarrow> sint val = int (unat val)"
proof -
  assume a: "unat val < 2 ^ 31"
  have "uint val < 2 ^ 31" using a by (rule uint_lt_of_unat)
  moreover have "0 \<le> uint val" by simp
  ultimately have "signed_take_bit 31 (uint val) = uint val"
    by (intro signed_take_bit_int_eq_self) linarith+
  then show ?thesis unfolding int_unat by (simp add: sint_uint)
qed

lemma sint_of_large:
  "2 ^ 31 \<le> unat (val::32 word) \<Longrightarrow> sint val < 0"
proof -
  assume a: "2 ^ 31 \<le> unat val"
  have ge: "2 ^ 31 \<le> uint val" using a by (rule uint_ge_of_unat)
  have lt: "uint val < 4294967296" using uint_bounded [of val] by simp
  have "signed_take_bit 31 (uint val) \<le> uint val - 2 ^ Suc 31"
    using ge by (rule signed_take_bit_int_less_eq)
  then have "signed_take_bit 31 (uint val) \<le> uint val - 4294967296"
    by simp
  moreover have "sint val = signed_take_bit 31 (uint val)"
    by (simp add: sint_uint)
  ultimately show ?thesis using lt by linarith
qed

lemma paint_pre_unfold:
  "glx_swap_method ps = SWAPM \<Longrightarrow> sint val = a \<Longrightarrow>
   glx_paint_pre MAXAGE SWAPM ps val preg =
     (let buffer_age = (if a > MAXAGE + 1 then 0 else a)
      in if \<not> buffer_age \<ge> 0 then Aborts
         else (case (if buffer_age \<noteq> 0
                     then union_damage (all_damage_last ps) (buffer_age - 1) 0 preg
                     else Some (screen_reg ps)) of
                 None \<Rightarrow> Undefined
               | Some painted \<Rightarrow>
                   Returns (painted,
                     if glx_swap_method ps < 0 \<or> glx_swap_method ps > 1
                     then ps\<lparr>all_damage_last :=
                            preg # take (nat (MAXAGE - 1)) (all_damage_last ps)\<rparr>
                     else ps)))"
  by (simp add: glx_paint_pre_def Let_def)

lemma paint_pre_zero:
  "glx_swap_method ps = SWAPM \<Longrightarrow> sint val = 0 \<Longrightarrow>
   \<exists>ps'. glx_paint_pre MAXAGE SWAPM ps val preg = Returns (screen_reg ps, ps')"
  by (simp add: paint_pre_unfold)

lemma paint_pre_too_old:
  "glx_swap_method ps = SWAPM \<Longrightarrow> sint val = a \<Longrightarrow> MAXAGE + 1 < a \<Longrightarrow>
   \<exists>ps'. glx_paint_pre MAXAGE SWAPM ps val preg = Returns (screen_reg ps, ps')"
  by (simp add: paint_pre_unfold)

lemma paint_pre_negative:
  "glx_swap_method ps = SWAPM \<Longrightarrow> sint val = a \<Longrightarrow> a < 0 \<Longrightarrow> 0 \<le> MAXAGE \<Longrightarrow>
   glx_paint_pre MAXAGE SWAPM ps val preg = Aborts"
  by (simp add: paint_pre_unfold)

lemma paint_pre_age:
  assumes "glx_swap_method ps = SWAPM" "sint val = int k" "1 \<le> k" "int k \<le> MAXAGE + 1"
    "length (all_damage_last ps) = nat MAXAGE"
  shows "\<exists>ps'. glx_paint_pre MAXAGE SWAPM ps val preg =
               Returns (preg \<union> \<Union> (set (take (k - 1) (all_damage_last ps))), ps')"
proof -
  have n: "nat (int k - 1) = k - 1" using assms(3) by simp
  have le: "nat (int k - 1) \<le> length (all_damage_last ps)"
    using assms(3,4,5) by simp
  have u: "union_damage (all_damage_last ps) (int k - 1) 0 preg =
        Some (preg \<union> \<Union> (set (take (k - 1) (all_damage_last ps))))"
    using union_damage_drop [of 0 "int k - 1" "all_damage_last ps" preg] assms(3) le n
    by simp
  show ?thesis
    using assms(1,2,3,4) u by (simp add: paint_pre_unfold)
qed

text \<open>
  Claim C1 (as amended). With the swap method set to buffer age and a history of
  \<open>CGLX_MAX_BUFFER_AGE\<close> regions, for every input region and every reported age \<open>a\<close>:
  if \<open>a = 0\<close> the paint region is the full-screen region; if
  \<open>1 \<le> a \<le> CGLX_MAX_BUFFER_AGE + 1\<close> it is the input region united with the first
  \<open>a - 1\<close> entries of the damage history (at \<open>a = CGLX_MAX_BUFFER_AGE + 1\<close>, with the
  whole history); if \<open>CGLX_MAX_BUFFER_AGE + 1 < a < 2 ^ 31\<close> it is the full-screen region
  again; and an age of \<open>2 ^ 31\<close> or more, negative as an \<open>int\<close>, fails the assertion
  \<open>buffer_age >= 0\<close>.
\<close>

theorem C1_paint_pre_region:
  assumes sm: "glx_swap_method ps = SWAPM"
    and len: "length (all_damage_last ps) = nat MAXAGE"
    and m0: "0 \<le> MAXAGE"
  shows "(unat val = 0 \<longrightarrow>
            (\<exists>ps'. glx_paint_pre MAXAGE SWAPM ps val preg = Returns (screen_reg ps, ps'))) \<and>
         (1 \<le> unat val \<and> int (unat val) \<le> MAXAGE + 1 \<and> unat val < 2 ^ 31 \<longrightarrow>
            (\<exists>ps'. glx_paint_pre MAXAGE SWAPM ps val preg =
               Returns (preg \<union> \<Union> (set (take (unat val - 1) (all_damage_last ps))), ps'))) \<and>
         (MAXAGE + 1 < int (unat val) \<and> unat val < 2 ^ 31 \<longrightarrow>
            (\<exists>ps'. glx_paint_pre MAXAGE SWAPM ps val preg = Returns (screen_reg ps, ps'))) \<and>
         (2 ^ 31 \<le> unat val \<longrightarrow> glx_paint_pre MAXAGE SWAPM ps val preg = Aborts)"
proof (intro conjI impI)
  assume "unat val = 0"
  then have "val = 0" by (simp only: unat_eq_0)
  then have "sint val = 0" by simp
  then show "\<exists>ps'. glx_paint_pre MAXAGE SWAPM ps val preg = Returns (screen_reg ps, ps')"
    using sm by (rule paint_pre_zero [rotated])
next
  assume a: "1 \<le> unat val \<and> int (unat val) \<le> MAXAGE + 1 \<and> unat val < 2 ^ 31"
  then have s: "sint val = int (unat val)"
    by (intro sint_of_small) blast
  from a have a1: "1 \<le> unat val" and a2: "int (unat val) \<le> MAXAGE + 1" by blast+
  show "\<exists>ps'. glx_paint_pre MAXAGE SWAPM ps val preg =
               Returns (preg \<union> \<Union> (set (take (unat val - 1) (all_damage_last ps))), ps')"
    by (rule paint_pre_age [OF sm s a1 a2 len])
next
  assume a: "MAXAGE + 1 < int (unat val) \<and> unat val < 2 ^ 31"
  then have s: "sint val = int (unat val)"
    by (intro sint_of_small) blast
  from a have a1: "MAXAGE + 1 < int (unat val)" by blast
  show "\<exists>ps'. glx_paint_pre MAXAGE SWAPM ps val preg = Returns (screen_reg ps, ps')"
    by (rule paint_pre_too_old [OF sm s a1])
next
  assume a: "2 ^ 31 \<le> unat val"
  then have s: "sint val < 0"
    by (rule sint_of_large)
  show "glx_paint_pre MAXAGE SWAPM ps val preg = Aborts"
    by (rule paint_pre_negative [OF sm refl s m0])
qed

theorem C1_paint_pre_region_witness:
  "\<exists>ps'. glx_paint_pre 2 (- 1)
       \<lparr>glx_swap_method = - 1, all_damage_last = [{(1, 0)}, {(2, 0)}],
        screen_reg = {(0, 0), (1, 0), (2, 0), (3, 0)}\<rparr> 2 {(0, 0)}
     = Returns ({(0, 0), (1, 0)}, ps')"
  using C1_paint_pre_region [of
      "\<lparr>glx_swap_method = - 1, all_damage_last = [{(1, 0)}, {(2, 0)}],
        screen_reg = {(0, 0), (1, 0), (2, 0), (3, 0)}\<rparr>" "- 1" 2 2 "{(0, 0)}"]
  by (simp add: insert_commute)

text \<open>
  The claim as stated fails at the first age above the history length: with a history of
  5 regions, age 6 unites the input with all 5 entries and does not repaint the full
  screen as age 0 does.
\<close>

theorem C1_counterexample:
  "glx_paint_pre 5 (- 1)
     \<lparr>glx_swap_method = - 1, all_damage_last = [{(1, 0)}, {}, {}, {}, {}],
      screen_reg = {(0, 0), (1, 0), (2, 0)}\<rparr> 6 {(0, 0)}
   = Returns ({(0, 0), (1, 0)},
       \<lparr>glx_swap_method = - 1, all_damage_last = [{(0, 0)}, {(1, 0)}, {}, {}, {}],
        screen_reg = {(0, 0), (1, 0), (2, 0)}\<rparr>)
   \<and>
   glx_paint_pre 5 (- 1)
     \<lparr>glx_swap_method = - 1, all_damage_last = [{(1, 0)}, {}, {}, {}, {}],
      screen_reg = {(0, 0), (1, 0), (2, 0)}\<rparr> 0 {(0, 0)}
   = Returns ({(0, 0), (1, 0), (2, 0)},
       \<lparr>glx_swap_method = - 1, all_damage_last = [{(0, 0)}, {(1, 0)}, {}, {}, {}],
        screen_reg = {(0, 0), (1, 0), (2, 0)}\<rparr>)
   \<and> (2::int, 0::int) \<notin> {(0, 0), (1, 0)}"
  by (simp add: glx_paint_pre_def Let_def union_damage.simps insert_commute)

subsection \<open>The FBConfig comparator\<close>

lemma c_int_id: "- (2 ^ 31) \<le> x \<Longrightarrow> x < 2 ^ 31 \<Longrightarrow> c_int x = x"
  unfolding c_int_def by (rule signed_take_bit_int_eq_self) simp_all

lemma candidate_ok_range:
  "candidate_ok dpy c \<Longrightarrow> attr \<in> set cmp_attrs \<Longrightarrow>
   0 \<le> attr_val dpy c attr \<and> attr_val dpy c attr < 2 ^ 31"
  by (simp add: candidate_ok_def list_all_iff)

lemma c_int_attr_diff:
  assumes "candidate_ok dpy a" "candidate_ok dpy b" "attr \<in> set cmp_attrs"
  shows "c_int (attr_val dpy a attr - attr_val dpy b attr) = attr_val dpy a attr - attr_val dpy b attr"
proof -
  from candidate_ok_range [OF assms(1,3)] candidate_ok_range [OF assms(2,3)]
  have r: "0 \<le> attr_val dpy a attr" "attr_val dpy a attr < 2 ^ 31"
    "0 \<le> attr_val dpy b attr" "attr_val dpy b attr < 2 ^ 31" by simp_all
  show ?thesis using r by (intro c_int_id) linarith+
qed

lemma cmpattr_attr_val:
  "glx_cmp_fbconfig_cmpattr dpy a b attr = c_int (attr_val dpy a attr - attr_val dpy b attr)"
  by (simp add: glx_cmp_fbconfig_cmpattr_def attr_val_def Let_def)

lemma lex5:
  fixes a1 a2 a3 a4 a5 b1 b2 b3 b4 b5 :: int
  shows "((a1, a2, a3, a4, a5) < (b1, b2, b3, b4, b5)) =
     (a1 < b1 \<or> (a1 = b1 \<and> (a2 < b2 \<or> (a2 = b2 \<and> (a3 < b3 \<or> (a3 = b3 \<and>
        (a4 < b4 \<or> (a4 = b4 \<and> a5 < b5))))))))"
  by (simp add: less_prod_def) linarith

lemma cmp_both8_eq:
  assumes ok: "candidate_ok dpy a" "candidate_ok dpy b"
    and red: "red_size dpy a = Some 8" "red_size dpy b = Some 8"
  shows "glx_cmp_fbconfig dpy (Some a) (Some b) = Returns
     (if attr_val dpy a GLX_BIND_TO_TEXTURE_RGBA_EXT \<noteq> attr_val dpy b GLX_BIND_TO_TEXTURE_RGBA_EXT
      then attr_val dpy b GLX_BIND_TO_TEXTURE_RGBA_EXT - attr_val dpy a GLX_BIND_TO_TEXTURE_RGBA_EXT
      else if attr_val dpy a GLX_DOUBLEBUFFER \<noteq> attr_val dpy b GLX_DOUBLEBUFFER
      then attr_val dpy b GLX_DOUBLEBUFFER - attr_val dpy a GLX_DOUBLEBUFFER
      else if attr_val dpy a GLX_STENCIL_SIZE \<noteq> attr_val dpy b GLX_STENCIL_SIZE
      then attr_val dpy b GLX_STENCIL_SIZE - attr_val dpy a GLX_STENCIL_SIZE
      else if attr_val dpy a GLX_DEPTH_SIZE \<noteq> attr_val dpy b GLX_DEPTH_SIZE
      then attr_val dpy b GLX_DEPTH_SIZE - attr_val dpy a GLX_DEPTH_SIZE
      else attr_val dpy a GLX_BIND_TO_MIPMAP_TEXTURE_EXT - attr_val dpy b GLX_BIND_TO_MIPMAP_TEXTURE_EXT)"
proof -
  have m: "GLX_BIND_TO_TEXTURE_RGBA_EXT \<in> set cmp_attrs" "GLX_DOUBLEBUFFER \<in> set cmp_attrs"
    "GLX_STENCIL_SIZE \<in> set cmp_attrs" "GLX_DEPTH_SIZE \<in> set cmp_attrs"
    "GLX_BIND_TO_MIPMAP_TEXTURE_EXT \<in> set cmp_attrs"
    by (simp_all add: cmp_attrs_def)
  note ex = m [THEN c_int_attr_diff [OF ok]] m [THEN c_int_attr_diff [OF ok(2,1)]]
  show ?thesis
    using red
    by (simp add: glx_cmp_fbconfig_def red_size_def Let_def cmpattr_attr_val ex)
qed


lemma better_iff:
  assumes ok: "candidate_ok dpy a" "candidate_ok dpy b"
  shows "fbconfig_better dpy (Some a) (Some b) \<longleftrightarrow>
     (red_size dpy a = Some 8 \<and> (red_size dpy b \<noteq> Some 8 \<or> rank_key dpy a < rank_key dpy b))"
proof (cases "red_size dpy a = Some 8 \<and> red_size dpy b = Some 8")
  case True
  then show ?thesis
    unfolding fbconfig_better_def cmp_both8_eq [OF ok conjunct1 [OF True] conjunct2 [OF True]]
      rank_key_def lex5
    by (simp split: if_splits)
next
  case False
  obtain ra rb where r: "glXGetFBConfigAttrib dpy (cfg a) GLX_RED_SIZE = Some ra"
      "glXGetFBConfigAttrib dpy (cfg b) GLX_RED_SIZE = Some rb"
    using ok by (auto simp: candidate_ok_def)
  with False show ?thesis
    by (auto simp: fbconfig_better_def glx_cmp_fbconfig_def red_size_def)
qed

lemma overrides_iff:
  assumes ok: "candidate_ok dpy new" "candidate_ok dpy cur"
  shows "fbconfig_overrides dpy (Some new) (Some cur) \<longleftrightarrow>
     (red_size dpy cur \<noteq> Some 8 \<or>
      (red_size dpy new = Some 8 \<and> rank_key dpy new < rank_key dpy cur))"
proof (cases "red_size dpy cur = Some 8 \<and> red_size dpy new = Some 8")
  case True
  then show ?thesis
    unfolding fbconfig_overrides_def cmp_both8_eq [OF ok(2,1) conjunct1 [OF True] conjunct2 [OF True]]
      rank_key_def lex5
    by (simp split: if_splits)
next
  case False
  obtain ra rb where r: "glXGetFBConfigAttrib dpy (cfg new) GLX_RED_SIZE = Some ra"
      "glXGetFBConfigAttrib dpy (cfg cur) GLX_RED_SIZE = Some rb"
    using ok by (auto simp: candidate_ok_def)
  with False show ?thesis
    by (auto simp: fbconfig_overrides_def glx_cmp_fbconfig_def red_size_def)
qed


lemma swo_abstract:
  fixes ka kb kc :: "'k::linorder"
  shows "\<not> (ea \<and> (\<not> ea \<or> ka < ka))
    \<and> ((ea \<and> (\<not> eb \<or> ka < kb)) \<and> (eb \<and> (\<not> ec \<or> kb < kc)) \<longrightarrow> (ea \<and> (\<not> ec \<or> ka < kc)))
    \<and> (\<not> (ea \<and> (\<not> eb \<or> ka < kb)) \<and> \<not> (eb \<and> (\<not> ea \<or> kb < ka))
       \<and> \<not> (eb \<and> (\<not> ec \<or> kb < kc)) \<and> \<not> (ec \<and> (\<not> eb \<or> kc < kb))
       \<longrightarrow> \<not> (ea \<and> (\<not> ec \<or> ka < kc)) \<and> \<not> (ec \<and> (\<not> ea \<or> kc < ka)))
    \<and> (\<not> ea \<and> eb \<longrightarrow> \<not> (ea \<and> (\<not> eb \<or> ka < kb)))
    \<and> ((\<not> eb \<or> (ea \<and> ka < kb)) \<and> (\<not> ec \<or> (eb \<and> kb < kc)) \<longrightarrow> (\<not> ec \<or> (ea \<and> ka < kc)))
    \<and> (\<not> ea \<and> eb \<longrightarrow> \<not> (\<not> eb \<or> (ea \<and> ka < kb)))"
proof (intro conjI)
  show "\<not> (ea \<and> (\<not> ea \<or> ka < ka))" by simp
  show "(ea \<and> (\<not> eb \<or> ka < kb)) \<and> (eb \<and> (\<not> ec \<or> kb < kc)) \<longrightarrow> (ea \<and> (\<not> ec \<or> ka < kc))"
    using less_trans [of ka kb kc] by blast
  show "\<not> (ea \<and> (\<not> eb \<or> ka < kb)) \<and> \<not> (eb \<and> (\<not> ea \<or> kb < ka))
       \<and> \<not> (eb \<and> (\<not> ec \<or> kb < kc)) \<and> \<not> (ec \<and> (\<not> eb \<or> kc < kb))
       \<longrightarrow> \<not> (ea \<and> (\<not> ec \<or> ka < kc)) \<and> \<not> (ec \<and> (\<not> ea \<or> kc < ka))"
    using linorder_less_linear [of ka kb] linorder_less_linear [of kb kc] less_irrefl [of ka]
      less_irrefl [of kc]
    by blast
  show "\<not> ea \<and> eb \<longrightarrow> \<not> (ea \<and> (\<not> eb \<or> ka < kb))" by simp
  show "(\<not> eb \<or> (ea \<and> ka < kb)) \<and> (\<not> ec \<or> (eb \<and> kb < kc)) \<longrightarrow> (\<not> ec \<or> (ea \<and> ka < kc))"
    using less_trans [of ka kb kc] by blast
  show "\<not> ea \<and> eb \<longrightarrow> \<not> (\<not> eb \<or> (ea \<and> ka < kb))" by simp
qed

text \<open>
  Claim C2. On candidates whose red size can be queried and whose compared attributes are
  non-negative \<open>int\<close> values, "ranked strictly better" (\<open>glx_cmp_fbconfig\<close> positive) is a
  strict weak ordering: irreflexive, transitive, and with transitive incomparability; and
  a candidate whose red size is not 8 is never ranked better than one whose red size is
  8. Transitivity and the red-size rule hold as well for the replacement test of
  \<open>glx_update_fbconfig_bydepth\<close> (\<open>glx_cmp_fbconfig(current, new) < 0\<close>).
\<close>

theorem C2_cmp_fbconfig_strict_weak_order:
  assumes "candidate_ok dpy a" "candidate_ok dpy b" "candidate_ok dpy c"
  shows "\<not> fbconfig_better dpy (Some a) (Some a)
    \<and> (fbconfig_better dpy (Some a) (Some b) \<and> fbconfig_better dpy (Some b) (Some c)
          \<longrightarrow> fbconfig_better dpy (Some a) (Some c))
    \<and> (\<not> fbconfig_better dpy (Some a) (Some b) \<and> \<not> fbconfig_better dpy (Some b) (Some a)
        \<and> \<not> fbconfig_better dpy (Some b) (Some c) \<and> \<not> fbconfig_better dpy (Some c) (Some b)
          \<longrightarrow> \<not> fbconfig_better dpy (Some a) (Some c) \<and> \<not> fbconfig_better dpy (Some c) (Some a))
    \<and> (red_size dpy a \<noteq> Some 8 \<and> red_size dpy b = Some 8
          \<longrightarrow> \<not> fbconfig_better dpy (Some a) (Some b))
    \<and> (fbconfig_overrides dpy (Some a) (Some b) \<and> fbconfig_overrides dpy (Some b) (Some c)
          \<longrightarrow> fbconfig_overrides dpy (Some a) (Some c))
    \<and> (red_size dpy a \<noteq> Some 8 \<and> red_size dpy b = Some 8
          \<longrightarrow> \<not> fbconfig_overrides dpy (Some a) (Some b))"
proof -
  define ka kb kc where "ka = rank_key dpy a" and "kb = rank_key dpy b" and "kc = rank_key dpy c"
  define ea eb ec where "ea \<longleftrightarrow> red_size dpy a = Some 8" and "eb \<longleftrightarrow> red_size dpy b = Some 8"
    and "ec \<longleftrightarrow> red_size dpy c = Some 8"
  note k = ka_def [symmetric] kb_def [symmetric] kc_def [symmetric]
    ea_def [symmetric] eb_def [symmetric] ec_def [symmetric]
  note b = better_iff [OF assms(1,1)] better_iff [OF assms(1,2)] better_iff [OF assms(2,3)]
    better_iff [OF assms(1,3)] better_iff [OF assms(2,1)] better_iff [OF assms(3,2)]
    better_iff [OF assms(3,1)]
    overrides_iff [OF assms(1,2)] overrides_iff [OF assms(2,3)] overrides_iff [OF assms(1,3)]
  show ?thesis
    unfolding b k
    by (rule swo_abstract)
qed

theorem C2_cmp_fbconfig_strict_weak_order_witness:
  "fbconfig_better
     \<lparr>glXGetFBConfigs = [1, 2, 3],
      glXGetFBConfigAttrib = (\<lambda>c attr.
         if attr = GLX_RED_SIZE then Some (if c = 3 then 10 else 8)
         else if attr = GLX_STENCIL_SIZE then Some (int c) else Some 0),
      glXGetVisualFromFBConfig = (\<lambda>c. Some 24)\<rparr>
     (Some \<lparr>cfg = 1, texture_fmt = 0, texture_tgts = 0, fbc_y_inverted = False\<rparr>)
     (Some \<lparr>cfg = 3, texture_fmt = 0, texture_tgts = 0, fbc_y_inverted = False\<rparr>)
   \<and> \<not> fbconfig_better
     \<lparr>glXGetFBConfigs = [1, 2, 3],
      glXGetFBConfigAttrib = (\<lambda>c attr.
         if attr = GLX_RED_SIZE then Some (if c = 3 then 10 else 8)
         else if attr = GLX_STENCIL_SIZE then Some (int c) else Some 0),
      glXGetVisualFromFBConfig = (\<lambda>c. Some 24)\<rparr>
     (Some \<lparr>cfg = 3, texture_fmt = 0, texture_tgts = 0, fbc_y_inverted = False\<rparr>)
     (Some \<lparr>cfg = 1, texture_fmt = 0, texture_tgts = 0, fbc_y_inverted = False\<rparr>)"
proof -
  let ?dpy = "\<lparr>glXGetFBConfigs = [1, 2, 3],
      glXGetFBConfigAttrib = (\<lambda>c attr.
         if attr = GLX_RED_SIZE then Some (if c = 3 then 10 else 8)
         else if attr = GLX_STENCIL_SIZE then Some (int c) else Some 0),
      glXGetVisualFromFBConfig = (\<lambda>c. Some 24)\<rparr>"
  let ?a = "\<lparr>cfg = 1, texture_fmt = 0, texture_tgts = 0, fbc_y_inverted = False\<rparr>"
  let ?b = "\<lparr>cfg = 2, texture_fmt = 0, texture_tgts = 0, fbc_y_inverted = False\<rparr>"
  let ?c = "\<lparr>cfg = 3, texture_fmt = 0, texture_tgts = 0, fbc_y_inverted = False\<rparr>"
  have ok: "candidate_ok ?dpy ?a" "candidate_ok ?dpy ?b" "candidate_ok ?dpy ?c"
    by (simp_all add: candidate_ok_def cmp_attrs_def attr_val_def)
  have ab: "fbconfig_better ?dpy (Some ?a) (Some ?b)"
    by (simp add: fbconfig_better_def glx_cmp_fbconfig_def glx_cmp_fbconfig_cmpattr_def
          c_int_def Let_def)
  have bc: "fbconfig_better ?dpy (Some ?b) (Some ?c)"
    by (simp add: fbconfig_better_def glx_cmp_fbconfig_def)
  have red: "red_size ?dpy ?c \<noteq> Some 8" "red_size ?dpy ?a = Some 8"
    by (simp_all add: red_size_def)
  from C2_cmp_fbconfig_strict_weak_order [OF ok(1) ok(2) ok(3)] ab bc
  have "fbconfig_better ?dpy (Some ?a) (Some ?c)" by blast
  moreover from C2_cmp_fbconfig_strict_weak_order [OF ok(3) ok(1) ok(1)] red
  have "\<not> fbconfig_better ?dpy (Some ?c) (Some ?a)" by blast
  ultimately show ?thesis by blast
qed

text \<open>
  The replacement test is not irreflexive on candidates whose red size is not 8:
  compared with itself such a candidate gives -1, so two of them override each other.
\<close>

lemma overrides_not_irreflexive:
  "fbconfig_overrides
     \<lparr>glXGetFBConfigs = [3],
      glXGetFBConfigAttrib = (\<lambda>c attr. if attr = GLX_RED_SIZE then Some 10 else Some 0),
      glXGetVisualFromFBConfig = (\<lambda>c. Some 24)\<rparr>
     (Some \<lparr>cfg = 3, texture_fmt = 0, texture_tgts = 0, fbc_y_inverted = False\<rparr>)
     (Some \<lparr>cfg = 3, texture_fmt = 0, texture_tgts = 0, fbc_y_inverted = False\<rparr>)"
  by (simp add: fbconfig_overrides_def glx_cmp_fbconfig_def)

subsection \<open>Selection of FBConfigs per depth\<close>

lemma bydepth_result:
  assumes "glx_update_fbconfig_bydepth dpy tbl dep f = Returns tbl'"
  shows "length tbl' = length tbl \<and>
         (\<forall>d < length tbl. tbl' ! d = tbl ! d \<or> (tbl' ! d = Some f \<and> int d = dep))"
  using assms
  by (auto simp: glx_update_fbconfig_bydepth_def c_bind_Returns nth_list_update
        split: if_splits)

lemma bydepth_keeps:
  assumes r: "glx_update_fbconfig_bydepth dpy tbl dep f = Returns tbl'"
    and q: "\<And>d. int d = dep \<Longrightarrow> Q f d"
  shows "length tbl' = length tbl \<and>
         (\<forall>d < length tbl. \<forall>g. tbl' ! d = Some g \<longrightarrow> tbl ! d = Some g \<or> Q g d)"
proof (intro conjI allI impI)
  from bydepth_result [OF r] show "length tbl' = length tbl" by simp
next
  fix d g assume d: "d < length tbl" and g: "tbl' ! d = Some g"
  from bydepth_result [OF r] d
  have "tbl' ! d = tbl ! d \<or> (tbl' ! d = Some f \<and> int d = dep)" by blast
  then show "tbl ! d = Some g \<or> Q g d"
  proof
    assume "tbl' ! d = tbl ! d"
    with g show ?thesis by simp
  next
    assume "tbl' ! d = Some f \<and> int d = dep"
    with g q [of d] show ?thesis by simp
  qed
qed

lemma step_result:
  assumes "glx_update_fbconfig_step dpy tbl pcur = Returns tbl'"
  shows "length tbl' = length tbl \<and>
         (\<forall>d < length tbl. \<forall>f. tbl' ! d = Some f \<longrightarrow>
             tbl ! d = Some f \<or> fbconfig_accepted dpy f d)"
proof (cases "case glXGetFBConfigAttrib dpy pcur GLX_SAMPLES of None \<Rightarrow> False | Some v \<Rightarrow> v > 1")
  case True
  with assms show ?thesis by (simp add: glx_update_fbconfig_step_def)
next
  case ns: False
  show ?thesis
  proof (cases "glXGetFBConfigAttrib dpy pcur GLX_BUFFER_SIZE = None
              \<or> glXGetFBConfigAttrib dpy pcur GLX_ALPHA_SIZE = None
              \<or> glXGetFBConfigAttrib dpy pcur GLX_BIND_TO_TEXTURE_TARGETS_EXT = None
              \<or> glXGetVisualFromFBConfig dpy pcur = None")
    case True
    with assms ns show ?thesis
      by (auto simp: glx_update_fbconfig_step_def split: option.splits)
  next
    case False
    then obtain bufsize depth_alpha tgts visualdepth where q:
      "glXGetFBConfigAttrib dpy pcur GLX_BUFFER_SIZE = Some bufsize"
      "glXGetFBConfigAttrib dpy pcur GLX_ALPHA_SIZE = Some depth_alpha"
      "glXGetFBConfigAttrib dpy pcur GLX_BIND_TO_TEXTURE_TARGETS_EXT = Some tgts"
      "glXGetVisualFromFBConfig dpy pcur = Some visualdepth"
      by auto
    define rgba where "rgba = (bufsize \<ge> 32 \<and> depth_alpha \<noteq> 0 \<and>
                    (case glXGetFBConfigAttrib dpy pcur GLX_BIND_TO_TEXTURE_RGBA_EXT of
                       None \<Rightarrow> False | Some v \<Rightarrow> v \<noteq> 0))"
    define rgb where "rgb = (case glXGetFBConfigAttrib dpy pcur GLX_BIND_TO_TEXTURE_RGB_EXT of
                       None \<Rightarrow> False | Some v \<Rightarrow> v \<noteq> 0)"
    define fbinfo where "fbinfo = \<lparr>cfg = pcur, texture_fmt = 0, texture_tgts = tgts,
                    fbc_y_inverted =
                      (case glXGetFBConfigAttrib dpy pcur GLX_Y_INVERTED_EXT of
                         None \<Rightarrow> False | Some v \<Rightarrow> v \<noteq> 0)\<rparr>"
    define tgtdpt where "tgtdpt = c_int (bufsize - depth_alpha)"
    define f1 where "f1 = fbinfo\<lparr>texture_fmt := GLX_TEXTURE_FORMAT_RGB_EXT\<rparr>"
    define f2 where "f2 = fbinfo\<lparr>texture_fmt := GLX_TEXTURE_FORMAT_RGBA_EXT\<rparr>"
    have unf: "glx_update_fbconfig_step dpy tbl pcur =
       c_bind (if tgtdpt = visualdepth \<and> tgtdpt < 32 \<and> rgb
               then glx_update_fbconfig_bydepth dpy tbl tgtdpt f1 else Returns tbl)
         (\<lambda>tbl1. if bufsize = visualdepth \<and> rgba
                 then glx_update_fbconfig_bydepth dpy tbl1 bufsize f2 else Returns tbl1)"
      unfolding rgba_def rgb_def tgtdpt_def f1_def f2_def fbinfo_def
        glx_update_fbconfig_step_def
      using ns q by (simp add: Let_def)
    from assms [unfolded unf c_bind_Returns]
    obtain tbl1 where
      s1: "(if tgtdpt = visualdepth \<and> tgtdpt < 32 \<and> rgb
            then glx_update_fbconfig_bydepth dpy tbl tgtdpt f1 else Returns tbl) = Returns tbl1"
      and s2: "(if bufsize = visualdepth \<and> rgba
            then glx_update_fbconfig_bydepth dpy tbl1 bufsize f2 else Returns tbl1) = Returns tbl'"
      by blast
    have acc1: "fbconfig_accepted dpy f1 d" if "tgtdpt = visualdepth" "rgb" "int d = tgtdpt" for d
      using that q
      by (simp add: fbconfig_accepted_def f1_def fbinfo_def tgtdpt_def rgb_def)
    have acc2: "fbconfig_accepted dpy f2 d" if "bufsize = visualdepth" "rgba" "int d = bufsize" for d
      using that q
      by (simp add: fbconfig_accepted_def f2_def fbinfo_def rgba_def)
    have r1: "length tbl1 = length tbl \<and>
         (\<forall>d < length tbl. \<forall>f. tbl1 ! d = Some f \<longrightarrow> tbl ! d = Some f \<or> fbconfig_accepted dpy f d)"
    proof (cases "tgtdpt = visualdepth \<and> tgtdpt < 32 \<and> rgb")
      case True
      with s1 have "glx_update_fbconfig_bydepth dpy tbl tgtdpt f1 = Returns tbl1" by simp
      from bydepth_keeps [OF this, of "fbconfig_accepted dpy"] True acc1 show ?thesis by blast
    next
      case False
      with s1 show ?thesis by simp
    qed
    have r2: "length tbl' = length tbl1 \<and>
         (\<forall>d < length tbl1. \<forall>f. tbl' ! d = Some f \<longrightarrow> tbl1 ! d = Some f \<or> fbconfig_accepted dpy f d)"
    proof (cases "bufsize = visualdepth \<and> rgba")
      case True
      with s2 have "glx_update_fbconfig_bydepth dpy tbl1 bufsize f2 = Returns tbl'" by simp
      from bydepth_keeps [OF this, of "fbconfig_accepted dpy"] True acc2 show ?thesis by blast
    next
      case False
      with s2 show ?thesis by simp
    qed
    from r1 r2 show ?thesis by auto
  qed
qed

lemma loop_result:
  "glx_update_fbconfig_loop dpy tbl cfgs = Returns tbl' \<Longrightarrow>
   length tbl' = length tbl \<and>
   (\<forall>d < length tbl. \<forall>f. tbl' ! d = Some f \<longrightarrow>
       tbl ! d = Some f \<or> fbconfig_accepted dpy f d)"
proof (induction cfgs arbitrary: tbl)
  case Nil
  then show ?case by simp
next
  case (Cons pcur rest)
  from Cons.prems obtain tbl1 where
    a: "glx_update_fbconfig_step dpy tbl pcur = Returns tbl1"
    and b: "glx_update_fbconfig_loop dpy tbl1 rest = Returns tbl'"
    by (auto simp: c_bind_Returns)
  from step_result [OF a] Cons.IH [OF b] show ?case by auto
qed

text \<open>
  Claim C6. Every FBConfig that \<open>glx_update_fbconfig\<close> leaves in the per-depth table at
  depth \<open>d\<close>, unless it was in that slot before the call, satisfies the acceptance
  condition: buffer size minus alpha size equals the visual depth \<open>d\<close> and it is
  RGB-bindable, kept with format RGB; or buffer size equals the visual depth \<open>d\<close> and it
  is RGBA-bindable, kept with format RGBA.
\<close>

theorem C6_update_fbconfig_accepted:
  assumes "glx_update_fbconfig dpy tbl default_depth = Returns (ok, tbl')"
    and "d < length tbl'" and "tbl' ! d = Some f"
  shows "tbl ! d = Some f \<or> fbconfig_accepted dpy f d"
proof -
  from assms(1) have "glx_update_fbconfig_loop dpy tbl (glXGetFBConfigs dpy) = Returns tbl'"
    by (auto simp: glx_update_fbconfig_def c_bind_Returns split: if_splits)
  from loop_result [OF this] assms(2,3) show ?thesis by auto
qed

theorem C6_update_fbconfig_accepted_witness:
  "fbconfig_accepted
     \<lparr>glXGetFBConfigs = [1, 2],
      glXGetFBConfigAttrib = (\<lambda>c attr.
         if attr = GLX_SAMPLES then None
         else if attr = GLX_BUFFER_SIZE then Some (if c = 1 then 24 else 32)
         else if attr = GLX_ALPHA_SIZE then Some (if c = 1 then 0 else 8)
         else if attr = GLX_RED_SIZE then Some 8
         else Some 1),
      glXGetVisualFromFBConfig = (\<lambda>c. Some (if c = 1 then 24 else 32))\<rparr>
     \<lparr>cfg = 2, texture_fmt = GLX_TEXTURE_FORMAT_RGBA_EXT, texture_tgts = 1,
      fbc_y_inverted = True\<rparr> 32"
proof -
  let ?dpy = "\<lparr>glXGetFBConfigs = [1, 2],
      glXGetFBConfigAttrib = (\<lambda>c attr.
         if attr = GLX_SAMPLES then None
         else if attr = GLX_BUFFER_SIZE then Some (if c = 1 then 24 else 32)
         else if attr = GLX_ALPHA_SIZE then Some (if c = 1 then 0 else 8)
         else if attr = GLX_RED_SIZE then Some 8
         else Some 1),
      glXGetVisualFromFBConfig = (\<lambda>c. Some (if c = 1 then 24 else 32))\<rparr>"
  let ?f1 = "\<lparr>cfg = 1, texture_fmt = GLX_TEXTURE_FORMAT_RGB_EXT, texture_tgts = 1,
      fbc_y_inverted = True\<rparr>"
  let ?f2 = "\<lparr>cfg = 2, texture_fmt = GLX_TEXTURE_FORMAT_RGBA_EXT, texture_tgts = 1,
      fbc_y_inverted = True\<rparr>"
  let ?tbl = "(replicate 33 None)[24 := Some ?f1, 32 := Some ?f2]"
  have run: "glx_update_fbconfig ?dpy (replicate 33 None) 24 = Returns (True, ?tbl)"
    by (simp add: glx_update_fbconfig_def glx_update_fbconfig_step_def
          glx_update_fbconfig_bydepth_def glx_cmp_fbconfig_def c_bind_def c_int_def
          OPENGL_MAX_DEPTH_def Let_def)
  have len: "32 < length ?tbl" by simp
  have slot: "?tbl ! 32 = Some ?f2" by simp
  from C6_update_fbconfig_accepted [OF run len slot] show ?thesis by simp
qed


subsection \<open>Convolution shader synthesis\<close>

































text \<open>
  A kernel of width or height 0 is outside this: for the kernel \<open>[0, 0]\<close> the buffer gets
  158 bytes (\<open>nele = -1\<close>) and the prefix alone has 171 characters, so the first
  \<open>sprintf\<close> writes past the buffer.
\<close>

lemma empty_kernel_overflows:
  "conv_blur_len False [] ''sampler2D'' ''texture2D'' 0 0 = 158
   \<and> length (FRAG_SHADER_BLUR_PREFIX [] ''sampler2D'') = 171
   \<and> conv_blur_shader xfixed_to_rat rat_to_int rat_g True False [] ''sampler2D'' ''texture2D''
         [0, 0] = Undefined"
  by code_simp




subsection \<open>Multi-pass blur needs a framebuffer\<close>

text \<open>
  Claim C9. If the convolution blur has more than one kernel and no framebuffer object
  can be generated, \<open>glx_init_conv_blur\<close> returns failure before any pass is built (the
  passes are those it was called with), and so does \<open>glx_init_blur\<close> when the blur method
  is the convolution blur.
\<close>

theorem C9_multi_pass_needs_framebuffer:
  fixes to_double :: "int \<Rightarrow> 'd::{zero,plus}"
  assumes "1 < length (blur_kerns ps)"
    and "blur_kerns ps ! 0 \<noteq> None"
    and "blur_kerns ps ! 1 \<noteq> None"
    and "glGenFramebuffers env = 0"
  shows "glx_init_conv_blur to_double to_int fmt_g MAX_BLUR_PASS ps env
           = Returns (False, blur_passes ps)
       \<and> (blur_method ps = BLRMTHD_CONV \<longrightarrow>
            glx_init_blur to_double to_int fmt_g MAX_BLUR_PASS ps env
              = Returns (False, blur_passes ps))"
  using assms by (auto simp: glx_init_conv_blur_def glx_init_blur_def)

theorem C9_multi_pass_needs_framebuffer_witness:
  "glx_init_blur xfixed_to_rat rat_to_int rat_g 2
     \<lparr>blur_method = BLRMTHD_CONV,
      blur_kerns = [Some [65536, 65536, 65536], Some [65536, 65536, 65536]],
      glx_use_gpushader4 = False, blur_has_npot = True, blur_passes = []\<rparr>
     \<lparr>glGenFramebuffers = 0, glx_create_shader = (\<lambda>s. 1), glx_create_program = (\<lambda>s. 2),
      glGetUniformLocation = (\<lambda>p n. 0), calloc_ok = True\<rparr>
   = Returns (False, [])"
  using C9_multi_pass_needs_framebuffer [of
      "\<lparr>blur_method = BLRMTHD_CONV,
        blur_kerns = [Some [65536, 65536, 65536], Some [65536, 65536, 65536]],
        glx_use_gpushader4 = False, blur_has_npot = True, blur_passes = []\<rparr>"
      "\<lparr>glGenFramebuffers = 0, glx_create_shader = (\<lambda>s. 1), glx_create_program = (\<lambda>s. 2),
        glGetUniformLocation = (\<lambda>p n. 0), calloc_ok = True\<rparr>"
      xfixed_to_rat rat_to_int rat_g 2]
  by simp

text \<open>With a framebuffer available the same configuration builds both passes.\<close>

lemma init_conv_blur_two_passes:
  "glx_init_blur xfixed_to_rat rat_to_int rat_g 2
     \<lparr>blur_method = BLRMTHD_CONV,
      blur_kerns = [Some [65536, 65536, 65536], Some [65536, 65536, 65536]],
      glx_use_gpushader4 = False, blur_has_npot = True,
      blur_passes = [\<lparr>frag_shader = 0, prog = 0, unifm_factor_center = - 1,
         unifm_offset_x = - 1, unifm_offset_y = - 1, unifm_offset = - 1,
         unifm_halfpixel = - 1, unifm_fulltex = - 1\<rparr>,
        \<lparr>frag_shader = 0, prog = 0, unifm_factor_center = - 1,
         unifm_offset_x = - 1, unifm_offset_y = - 1, unifm_offset = - 1,
         unifm_halfpixel = - 1, unifm_fulltex = - 1\<rparr>]\<rparr>
     \<lparr>glGenFramebuffers = 1, glx_create_shader = (\<lambda>s. 1), glx_create_program = (\<lambda>s. 2),
      glGetUniformLocation = (\<lambda>p n. 0), calloc_ok = True\<rparr>
   = Returns (True,
       [\<lparr>frag_shader = 1, prog = 2, unifm_factor_center = 0, unifm_offset_x = 0,
         unifm_offset_y = 0, unifm_offset = - 1, unifm_halfpixel = - 1, unifm_fulltex = - 1\<rparr>,
        \<lparr>frag_shader = 1, prog = 2, unifm_factor_center = 0, unifm_offset_x = 0,
         unifm_offset_y = 0, unifm_offset = - 1, unifm_halfpixel = - 1, unifm_fulltex = - 1\<rparr>])"
  by code_simp

subsection \<open>Blur keeps the scissor and stencil flags\<close>

lemma enable_saved_idem:
  "enable_saved hs hst (enable_saved hs hst gl) = enable_saved hs hst gl"
  by (simp add: enable_saved_def)

lemma conv_blur_loop_flags:
  "conv_blur_loop m passes drv hs hst i t1 t2 gl = Returns (ret, gl1) \<Longrightarrow>
   gl1 = gl \<or> gl1 = enable_saved hs hst gl"
proof (induction m passes drv hs hst i t1 t2 gl rule: conv_blur_loop.induct)
  case (1 m passes drv hs hst i t1 t2 gl)
  have IH: "gl1 = gl \<or> gl1 = enable_saved hs hst gl"
    if "i + 1 < length passes" "int i < int m - 1" "prog (passes ! i) \<noteq> 0" "t1 \<noteq> 0"
      "prog (passes ! (i + 1)) \<noteq> 0" "framebuffer_complete drv (Conv i)"
      "conv_blur_loop m passes drv hs hst (i + 1) t2 t1 gl = Returns (ret, gl1)"
    using "1.IH" that by simp
  from "1.prems" have
    "(if \<not> i + 1 < length passes then Undefined
      else if \<not> int i < int m - 1 then Aborts
      else if prog (passes ! i) = 0 then Aborts
      else if t1 = 0 then Aborts
      else if \<not> (prog (passes ! (i + 1)) = 0)
      then (if \<not> framebuffer_complete drv (Conv i) then Returns (False, gl)
            else conv_blur_loop m passes drv hs hst (i + 1) t2 t1 gl)
      else Returns (True, enable_saved hs hst gl)) = Returns (ret, gl1)"
    by (subst (asm) conv_blur_loop.simps) simp
  then show ?case
    using IH by (auto split: if_splits)
qed

lemma kawase_up_flags:
  "kawase_up passes drv hs hst texs levels gl drawn = Returns (ret, gl1, drawn1) \<Longrightarrow>
   gl1 = gl \<or> gl1 = enable_saved hs hst gl"
proof (induction levels arbitrary: gl drawn)
  case Nil
  then show ?case by simp
next
  case (Cons i levels)
  from Cons.prems show ?case
    by (auto split: if_splits dest!: Cons.IH simp: enable_saved_idem)
qed

lemma restore_flags:
  assumes "g0 = gl \<or> g0 = gl\<lparr>GL_STENCIL_TEST := False, GL_SCISSOR_TEST := False\<rparr>"
    and "gl1 = g0 \<or> gl1 = enable_saved (GL_SCISSOR_TEST gl) (GL_STENCIL_TEST gl) g0"
  shows "enable_saved (GL_SCISSOR_TEST gl) (GL_STENCIL_TEST gl) gl1 = gl"
  using assms by (auto simp: enable_saved_def)

lemma conv_blur_body_flags:
  assumes "conv_blur_body m passes drv mp t1 t2 fb gl = Returns (ret, gl1)"
  shows "enable_saved (GL_SCISSOR_TEST gl) (GL_STENCIL_TEST gl) gl1 = gl"
proof (cases "t1 = 0 \<or> (mp \<and> t2 = 0) \<or> (mp \<and> fb = 0)")
  case True
  with assms have "gl1 = gl" by (auto simp: conv_blur_body_def split: if_splits)
  then show ?thesis by (simp add: enable_saved_def)
next
  case False
  define g0 where "g0 = (if mp then gl\<lparr>GL_STENCIL_TEST := False, GL_SCISSOR_TEST := False\<rparr> else gl)"
  have g0: "g0 = gl \<or> g0 = gl\<lparr>GL_STENCIL_TEST := False, GL_SCISSOR_TEST := False\<rparr>"
    by (simp add: g0_def)
  from assms False
  have "conv_blur_loop m passes drv (GL_SCISSOR_TEST gl) (GL_STENCIL_TEST gl) 0 t1 t2 g0
          = Returns (ret, gl1)"
    by (auto simp: conv_blur_body_def g0_def split: if_splits)
  from conv_blur_loop_flags [OF this]
  have "gl1 = g0 \<or> gl1 = enable_saved (GL_SCISSOR_TEST gl) (GL_STENCIL_TEST gl) g0" .
  from restore_flags [OF g0 this] show ?thesis .
qed

lemma kawase_blur_body_flags:
  assumes "kawase_blur_body passes drv t1 texs fb levels gl = Returns (ret, gl1, drawn1)"
  shows "enable_saved (GL_SCISSOR_TEST gl) (GL_STENCIL_TEST gl) gl1 = gl"
proof (cases "t1 = 0 \<or> list_ex (\<lambda>i. texs ! i = 0) levels \<or> fb = 0")
  case True
  with assms have "gl1 = gl" by (auto simp: kawase_blur_body_def split: if_splits)
  then show ?thesis by (simp add: enable_saved_def)
next
  case False
  let ?g0 = "gl\<lparr>GL_STENCIL_TEST := False, GL_SCISSOR_TEST := False\<rparr>"
  have g0: "?g0 = gl \<or> ?g0 = gl\<lparr>GL_STENCIL_TEST := False, GL_SCISSOR_TEST := False\<rparr>"
    by simp
  from assms False obtain down_done drawn0 where
    d: "kawase_down passes drv texs levels [] = Returns (down_done, drawn0)"
    and u: "(if \<not> down_done then Returns (False, ?g0, drawn0)
             else kawase_up passes drv (GL_SCISSOR_TEST gl) (GL_STENCIL_TEST gl) texs (rev levels)
                    ?g0 drawn0)
            = Returns (ret, gl1, drawn1)"
    by (auto simp: kawase_blur_body_def c_bind_Returns split: if_splits)
  have "gl1 = ?g0 \<or> gl1 = enable_saved (GL_SCISSOR_TEST gl) (GL_STENCIL_TEST gl) ?g0"
  proof (cases down_done)
    case True
    with u have "kawase_up passes drv (GL_SCISSOR_TEST gl) (GL_STENCIL_TEST gl) texs (rev levels)
        ?g0 drawn0 = Returns (ret, gl1, drawn1)" by simp
    then show ?thesis by (rule kawase_up_flags)
  next
    case False
    with u show ?thesis by simp
  qed
  from restore_flags [OF g0 this] show ?thesis .
qed

text \<open>
  Claim C8. Whenever \<open>glx_conv_blur_dst\<close> or \<open>glx_kawase_blur_dst\<close> returns, with
  success or after a texture or framebuffer allocation failure or an incomplete
  framebuffer attachment, the scissor-test and stencil-test enable flags are the ones
  found on entry.
\<close>

theorem C8_blur_restores_flags:
  "(glx_conv_blur_dst free_glx_bc_resize m passes drv w h pbc gl = Returns (ret, gl', pbc') \<longrightarrow>
      GL_SCISSOR_TEST gl' = GL_SCISSOR_TEST gl \<and> GL_STENCIL_TEST gl' = GL_STENCIL_TEST gl)
   \<and> (glx_kawase_blur_dst free_glx_bc_resize m passes drv its w h pbc gl
         = Returns (ret, gl', pbc', drawn) \<longrightarrow>
      GL_SCISSOR_TEST gl' = GL_SCISSOR_TEST gl \<and> GL_STENCIL_TEST gl' = GL_STENCIL_TEST gl)"
proof (intro conjI impI)
  assume a: "glx_conv_blur_dst free_glx_bc_resize m passes drv w h pbc gl
      = Returns (ret, gl', pbc')"
  then have "gl' = gl"
    unfolding glx_conv_blur_dst_def Let_def
    by (auto simp: c_bind_Returns conv_blur_body_flags split: if_splits)
  then show "GL_SCISSOR_TEST gl' = GL_SCISSOR_TEST gl" "GL_STENCIL_TEST gl' = GL_STENCIL_TEST gl"
    by simp_all
next
  assume a: "glx_kawase_blur_dst free_glx_bc_resize m passes drv its w h pbc gl
      = Returns (ret, gl', pbc', drawn)"
  then have "gl' = gl"
    unfolding glx_kawase_blur_dst_def Let_def
    by (auto simp: c_bind_Returns kawase_blur_body_flags split: if_splits option.splits)
  then show "GL_SCISSOR_TEST gl' = GL_SCISSOR_TEST gl" "GL_STENCIL_TEST gl' = GL_STENCIL_TEST gl"
    by simp_all
qed

theorem C8_blur_restores_flags_witness:
  "(\<exists>gl' pbc'.
      glx_conv_blur_dst id 3
        [\<lparr>frag_shader = 1, prog = 5, unifm_factor_center = 0, unifm_offset_x = 0,
          unifm_offset_y = 0, unifm_offset = 0, unifm_halfpixel = 0, unifm_fulltex = 0\<rparr>,
         \<lparr>frag_shader = 2, prog = 6, unifm_factor_center = 0, unifm_offset_x = 0,
          unifm_offset_y = 0, unifm_offset = 0, unifm_halfpixel = 0, unifm_fulltex = 0\<rparr>,
         \<lparr>frag_shader = 0, prog = 0, unifm_factor_center = 0, unifm_offset_x = 0,
          unifm_offset_y = 0, unifm_offset = 0, unifm_halfpixel = 0, unifm_fulltex = 0\<rparr>]
        \<lparr>glx_gen_texture = (\<lambda>i. 7 + i), gen_framebuffer = 9,
         framebuffer_complete = (\<lambda>s. True)\<rparr>
        4 4 None \<lparr>GL_SCISSOR_TEST = True, GL_STENCIL_TEST = False\<rparr>
      = Returns (True, gl', pbc')
      \<and> GL_SCISSOR_TEST gl' \<and> \<not> GL_STENCIL_TEST gl')
   \<and> (\<exists>gl' pbc' drawn.
      glx_kawase_blur_dst id 3
        [\<lparr>frag_shader = 1, prog = 5, unifm_factor_center = 0, unifm_offset_x = 0,
          unifm_offset_y = 0, unifm_offset = 0, unifm_halfpixel = 0, unifm_fulltex = 0\<rparr>,
         \<lparr>frag_shader = 2, prog = 6, unifm_factor_center = 0, unifm_offset_x = 0,
          unifm_offset_y = 0, unifm_offset = 0, unifm_halfpixel = 0, unifm_fulltex = 0\<rparr>,
         \<lparr>frag_shader = 0, prog = 0, unifm_factor_center = 0, unifm_offset_x = 0,
          unifm_offset_y = 0, unifm_offset = 0, unifm_halfpixel = 0, unifm_fulltex = 0\<rparr>]
        \<lparr>glx_gen_texture = (\<lambda>i. 7 + i), gen_framebuffer = 9,
         framebuffer_complete = (\<lambda>s. s \<noteq> Up 2)\<rparr>
        2 4 4 None \<lparr>GL_SCISSOR_TEST = True, GL_STENCIL_TEST = False\<rparr>
      = Returns (False, gl', pbc', drawn)
      \<and> GL_SCISSOR_TEST gl' \<and> \<not> GL_STENCIL_TEST gl')"
proof -
  let ?passes = "[\<lparr>frag_shader = 1, prog = 5, unifm_factor_center = 0, unifm_offset_x = 0,
          unifm_offset_y = 0, unifm_offset = 0, unifm_halfpixel = 0, unifm_fulltex = 0\<rparr>,
         \<lparr>frag_shader = 2, prog = 6, unifm_factor_center = 0, unifm_offset_x = 0,
          unifm_offset_y = 0, unifm_offset = 0, unifm_halfpixel = 0, unifm_fulltex = 0\<rparr>,
         \<lparr>frag_shader = 0, prog = 0, unifm_factor_center = 0, unifm_offset_x = 0,
          unifm_offset_y = 0, unifm_offset = 0, unifm_halfpixel = 0, unifm_fulltex = 0\<rparr>]"
  let ?drv1 = "\<lparr>glx_gen_texture = (\<lambda>i. 7 + i), gen_framebuffer = 9,
         framebuffer_complete = (\<lambda>s. True)\<rparr>"
  let ?drv2 = "\<lparr>glx_gen_texture = (\<lambda>i. 7 + i), gen_framebuffer = 9,
         framebuffer_complete = (\<lambda>s. s \<noteq> Up 2)\<rparr>"
  let ?gl = "\<lparr>GL_SCISSOR_TEST = True, GL_STENCIL_TEST = False\<rparr>"
  obtain g1 where r1: "glx_conv_blur_dst id 3 ?passes ?drv1 4 4 None ?gl = Returns (True, g1, None)"
    by (simp add: glx_conv_blur_dst_def blur_cache_for_def conv_blur_body_def
          conv_blur_loop.simps c_bind_def Let_def numeral_3_eq_3)
  obtain g2 where r2: "glx_kawase_blur_dst id 3 ?passes ?drv2 2 4 4 None ?gl
      = Returns (False, g2, None, [Down 1, Down 2])"
    by (simp add: glx_kawase_blur_dst_def blur_cache_for_def kawase_blur_body_def
          reduce_iterations.simps c_shl1_def signed_divide_int_def c_bind_def Let_def
          numeral_3_eq_3 numeral_2_eq_2 upt_rec)
  from C8_blur_restores_flags [of id 3 ?passes ?drv1 4 4 None ?gl True g1 None] r1
  have f1: "GL_SCISSOR_TEST g1 \<and> \<not> GL_STENCIL_TEST g1" by simp
  from C8_blur_restores_flags [of id 3 ?passes ?drv2 4 4 None ?gl False g2 None 2
      "[Down 1, Down 2]"] r2
  have f2: "GL_SCISSOR_TEST g2 \<and> \<not> GL_STENCIL_TEST g2" by simp
  from r1 f1 r2 f2 show ?thesis by blast
qed

end

